theory Spec2Isabelle
  imports Complex_Main "HOL-Library.Word" "HOL-Library.Sublist"
begin

unbundle bit_operations_syntax

section \<open>Map types (src/common/maptypes.h)\<close>

text \<open>
  The structs of \<^verbatim>\<open>namespace map\<close> are records with the fields of the source, in the
  order of the source. A field whose name is a constant of HOL or a keyword carries a
  prime (\<open>id'\<close>, \<open>length'\<close>, \<open>range'\<close>, \<open>type'\<close>, \<open>end'\<close>, \<open>closed'\<close>). \<^verbatim>\<open>QString\<close> is
  \<open>string\<close>, \<^verbatim>\<open>int\<close> is \<open>int\<close> where only its value is carried around and a 32 bit word
  where its bits are used, \<^verbatim>\<open>float\<close> fields are carried as \<open>real\<close> (no arithmetic is done
  on them here).

  \<^verbatim>\<open>atools::geo::Pos\<close> belongs to the atools library and is not part of the sources: the
  position type is the type parameter \<open>'pos\<close>, and \<^verbatim>\<open>Pos::isValid()\<close> is the parameter
  \<open>posIsValid\<close> of every function that calls it.
\<close>

type_synonym float = real

type_synonym 'pos LineString = "'pos list"

record 'pos Rect =
  topLeft :: "'pos"
  bottomRight :: "'pos"

type_synonym MapAirportFlags = "32 word"

record 'pos MapAirport =
  ident :: string
  name :: string
  id' :: int
  longestRunwayLength :: int
  longestRunwayHeading :: int
  flags :: MapAirportFlags
  magvar :: float
  towerFrequency :: int
  atisFrequency :: int
  awosFrequency :: int
  asosFrequency :: int
  unicomFrequency :: int
  position :: "'pos"
  towerCoords :: "'pos"
  bounding :: "'pos Rect"
  routeIndex :: int

record 'pos MapRunway =
  surface :: string
  primaryName :: string
  secondaryName :: string
  edgeLight :: string
  length' :: int
  primaryEndId :: int
  secondaryEndId :: int
  heading :: float
  width :: int
  primaryOffset :: int
  secondaryOffset :: int
  primaryBlastPad :: int
  secondaryBlastPad :: int
  primaryOverrun :: int
  secondaryOverrun :: int
  position :: "'pos"
  primaryPosition :: "'pos"
  secondaryPosition :: "'pos"
  primaryClosed :: bool
  secondaryClosed :: bool

record 'pos MapRunwayEnd =
  name :: string
  heading :: float
  position :: "'pos"
  secondary :: bool

record 'pos MapApron =
  vertices :: "'pos LineString"
  surface :: string
  drawSurface :: bool

record 'pos MapTaxiPath =
  start :: "'pos"
  end' :: "'pos"
  surface :: string
  name :: string
  width :: int
  drawSurface :: bool
  closed' :: bool

record 'pos MapParking =
  type' :: string
  name :: string
  airlineCodes :: string
  id' :: int
  airportId :: int
  position :: "'pos"
  number :: int
  radius :: int
  heading :: int
  jetway :: bool

record 'pos MapStart =
  type' :: string
  runwayName :: string
  id' :: int
  airportId :: int
  position :: "'pos"
  heading :: int
  helipadNumber :: int

record 'pos MapHelipad =
  surface :: string
  type' :: string
  position :: "'pos"
  length' :: int
  width :: int
  heading :: int
  start :: int
  closed' :: bool
  transparent :: bool

record 'pos MapVor =
  ident :: string
  region :: string
  type' :: string
  name :: string
  id' :: int
  magvar :: float
  frequency :: int
  range' :: int
  position :: "'pos"
  routeIndex :: int
  dmeOnly :: bool
  hasDme :: bool

record 'pos MapNdb =
  ident :: string
  region :: string
  type' :: string
  name :: string
  id' :: int
  magvar :: float
  frequency :: int
  range' :: int
  position :: "'pos"
  routeIndex :: int

record 'pos MapWaypoint =
  id' :: int
  magvar :: float
  ident :: string
  region :: string
  type' :: string
  position :: "'pos"
  routeIndex :: int
  hasVictorAirways :: bool
  hasJetAirways :: bool

record 'pos MapUserpoint =
  name :: string
  id' :: int
  position :: "'pos"
  routeIndex :: int

subsection \<open>\<^verbatim>\<open>isValid()\<close>, \<^verbatim>\<open>getPosition()\<close> and \<^verbatim>\<open>getId()\<close>\<close>

definition MapAirport_isValid :: "('pos \<Rightarrow> bool) \<Rightarrow> 'pos MapAirport \<Rightarrow> bool" where
  "MapAirport_isValid posIsValid a = posIsValid (MapAirport.position a)"

definition MapAirport_getPosition :: "'pos MapAirport \<Rightarrow> 'pos" where
  "MapAirport_getPosition a = MapAirport.position a"

definition MapAirport_getId :: "'pos MapAirport \<Rightarrow> int" where
  "MapAirport_getId a = MapAirport.id' a"

definition MapRunway_isValid :: "('pos \<Rightarrow> bool) \<Rightarrow> 'pos MapRunway \<Rightarrow> bool" where
  "MapRunway_isValid posIsValid r = posIsValid (MapRunway.position r)"

definition MapRunway_getPosition :: "'pos MapRunway \<Rightarrow> 'pos" where
  "MapRunway_getPosition r = MapRunway.position r"

definition MapRunway_getId :: "'pos MapRunway \<Rightarrow> int" where
  "MapRunway_getId r = - 1"

definition MapRunwayEnd_isValid :: "('pos \<Rightarrow> bool) \<Rightarrow> 'pos MapRunwayEnd \<Rightarrow> bool" where
  "MapRunwayEnd_isValid posIsValid e = posIsValid (MapRunwayEnd.position e)"

definition MapRunwayEnd_getPosition :: "'pos MapRunwayEnd \<Rightarrow> 'pos" where
  "MapRunwayEnd_getPosition e = MapRunwayEnd.position e"

definition MapRunwayEnd_getId :: "'pos MapRunwayEnd \<Rightarrow> int" where
  "MapRunwayEnd_getId e = - 1"

definition MapApron_isValid :: "'pos MapApron \<Rightarrow> bool" where
  "MapApron_isValid a = (MapApron.vertices a \<noteq> [])"

definition MapApron_getId :: "'pos MapApron \<Rightarrow> int" where
  "MapApron_getId a = - 1"

definition MapTaxiPath_isValid :: "('pos \<Rightarrow> bool) \<Rightarrow> 'pos MapTaxiPath \<Rightarrow> bool" where
  "MapTaxiPath_isValid posIsValid t = posIsValid (MapTaxiPath.start t)"

definition MapTaxiPath_getId :: "'pos MapTaxiPath \<Rightarrow> int" where
  "MapTaxiPath_getId t = - 1"

definition MapParking_isValid :: "('pos \<Rightarrow> bool) \<Rightarrow> 'pos MapParking \<Rightarrow> bool" where
  "MapParking_isValid posIsValid p = posIsValid (MapParking.position p)"

definition MapParking_getPosition :: "'pos MapParking \<Rightarrow> 'pos" where
  "MapParking_getPosition p = MapParking.position p"

definition MapParking_getId :: "'pos MapParking \<Rightarrow> int" where
  "MapParking_getId p = - 1"

definition MapStart_isValid :: "('pos \<Rightarrow> bool) \<Rightarrow> 'pos MapStart \<Rightarrow> bool" where
  "MapStart_isValid posIsValid s = posIsValid (MapStart.position s)"

definition MapStart_getPosition :: "'pos MapStart \<Rightarrow> 'pos" where
  "MapStart_getPosition s = MapStart.position s"

definition MapStart_getId :: "'pos MapStart \<Rightarrow> int" where
  "MapStart_getId s = MapStart.id' s"

definition MapHelipad_isValid :: "('pos \<Rightarrow> bool) \<Rightarrow> 'pos MapHelipad \<Rightarrow> bool" where
  "MapHelipad_isValid posIsValid h = posIsValid (MapHelipad.position h)"

definition MapHelipad_getPosition :: "'pos MapHelipad \<Rightarrow> 'pos" where
  "MapHelipad_getPosition h = MapHelipad.position h"

definition MapHelipad_getId :: "'pos MapHelipad \<Rightarrow> int" where
  "MapHelipad_getId h = - 1"

definition MapVor_isValid :: "('pos \<Rightarrow> bool) \<Rightarrow> 'pos MapVor \<Rightarrow> bool" where
  "MapVor_isValid posIsValid v = posIsValid (MapVor.position v)"

definition MapVor_getPosition :: "'pos MapVor \<Rightarrow> 'pos" where
  "MapVor_getPosition v = MapVor.position v"

definition MapVor_getId :: "'pos MapVor \<Rightarrow> int" where
  "MapVor_getId v = MapVor.id' v"

definition MapNdb_isValid :: "('pos \<Rightarrow> bool) \<Rightarrow> 'pos MapNdb \<Rightarrow> bool" where
  "MapNdb_isValid posIsValid n = posIsValid (MapNdb.position n)"

definition MapNdb_getPosition :: "'pos MapNdb \<Rightarrow> 'pos" where
  "MapNdb_getPosition n = MapNdb.position n"

definition MapNdb_getId :: "'pos MapNdb \<Rightarrow> int" where
  "MapNdb_getId n = MapNdb.id' n"

definition MapWaypoint_isValid :: "('pos \<Rightarrow> bool) \<Rightarrow> 'pos MapWaypoint \<Rightarrow> bool" where
  "MapWaypoint_isValid posIsValid w = posIsValid (MapWaypoint.position w)"

definition MapWaypoint_getPosition :: "'pos MapWaypoint \<Rightarrow> 'pos" where
  "MapWaypoint_getPosition w = MapWaypoint.position w"

definition MapWaypoint_getId :: "'pos MapWaypoint \<Rightarrow> int" where
  "MapWaypoint_getId w = MapWaypoint.id' w"

definition MapUserpoint_isValid :: "('pos \<Rightarrow> bool) \<Rightarrow> 'pos MapUserpoint \<Rightarrow> bool" where
  "MapUserpoint_isValid posIsValid u = posIsValid (MapUserpoint.position u)"

definition MapUserpoint_getPosition :: "'pos MapUserpoint \<Rightarrow> 'pos" where
  "MapUserpoint_getPosition u = MapUserpoint.position u"

definition MapUserpoint_getId :: "'pos MapUserpoint \<Rightarrow> int" where
  "MapUserpoint_getId u = MapUserpoint.id' u"


section \<open>Flight plan data model\<close>

text \<open>
  Modelled from the spec: the NavPoint reference, the tagged union of section 3 over
  airport, VOR, NDB, waypoint, user waypoint, runway end or parking used as start, and
  raw coordinate. The variants carry the structs of maptypes.h; a raw coordinate carries
  the token it was read from and its literal position.
\<close>

datatype 'pos NavPoint =
    Airport "'pos MapAirport"
  | Vor "'pos MapVor"
  | Ndb "'pos MapNdb"
  | Waypoint "'pos MapWaypoint"
  | UserWaypoint "'pos MapUserpoint"
  | RunwayEnd "'pos MapRunwayEnd"
  | Parking "'pos MapParking"
  | Coordinate string "'pos"

fun NavPoint_isValid :: "('pos \<Rightarrow> bool) \<Rightarrow> 'pos NavPoint \<Rightarrow> bool" where
  "NavPoint_isValid posIsValid (Airport a) = MapAirport_isValid posIsValid a"
| "NavPoint_isValid posIsValid (Vor v) = MapVor_isValid posIsValid v"
| "NavPoint_isValid posIsValid (Ndb n) = MapNdb_isValid posIsValid n"
| "NavPoint_isValid posIsValid (Waypoint w) = MapWaypoint_isValid posIsValid w"
| "NavPoint_isValid posIsValid (UserWaypoint u) = MapUserpoint_isValid posIsValid u"
| "NavPoint_isValid posIsValid (RunwayEnd e) = MapRunwayEnd_isValid posIsValid e"
| "NavPoint_isValid posIsValid (Parking p) = MapParking_isValid posIsValid p"
| "NavPoint_isValid posIsValid (Coordinate t p) = posIsValid p"

fun NavPoint_getPosition :: "'pos NavPoint \<Rightarrow> 'pos" where
  "NavPoint_getPosition (Airport a) = MapAirport_getPosition a"
| "NavPoint_getPosition (Vor v) = MapVor_getPosition v"
| "NavPoint_getPosition (Ndb n) = MapNdb_getPosition n"
| "NavPoint_getPosition (Waypoint w) = MapWaypoint_getPosition w"
| "NavPoint_getPosition (UserWaypoint u) = MapUserpoint_getPosition u"
| "NavPoint_getPosition (RunwayEnd e) = MapRunwayEnd_getPosition e"
| "NavPoint_getPosition (Parking p) = MapParking_getPosition p"
| "NavPoint_getPosition (Coordinate t p) = p"

fun NavPoint_getId :: "'pos NavPoint \<Rightarrow> int" where
  "NavPoint_getId (Airport a) = MapAirport_getId a"
| "NavPoint_getId (Vor v) = MapVor_getId v"
| "NavPoint_getId (Ndb n) = MapNdb_getId n"
| "NavPoint_getId (Waypoint w) = MapWaypoint_getId w"
| "NavPoint_getId (UserWaypoint u) = MapUserpoint_getId u"
| "NavPoint_getId (RunwayEnd e) = MapRunwayEnd_getId e"
| "NavPoint_getId (Parking p) = MapParking_getId p"
| "NavPoint_getId (Coordinate t p) = - 1"

fun NavPoint_ident :: "'pos NavPoint \<Rightarrow> string" where
  "NavPoint_ident (Airport a) = MapAirport.ident a"
| "NavPoint_ident (Vor v) = MapVor.ident v"
| "NavPoint_ident (Ndb n) = MapNdb.ident n"
| "NavPoint_ident (Waypoint w) = MapWaypoint.ident w"
| "NavPoint_ident (UserWaypoint u) = MapUserpoint.name u"
| "NavPoint_ident (RunwayEnd e) = MapRunwayEnd.name e"
| "NavPoint_ident (Parking p) = MapParking.name p"
| "NavPoint_ident (Coordinate t p) = t"

text \<open>
  Modelled from the spec: the Flightplan of section 3 (\<^verbatim>\<open>atools::fs::pln::Flightplan\<close> is
  not part of the sources). An entry is a NavPoint reference with the optional airway of
  the leg arriving at it, an optional altitude constraint, and the mark of a leg written
  with \<^verbatim>\<open>DCT\<close>. The plan has its entries in flight order and the plan-level attributes.
  \<open>Flightplan_clear\<close> is \<^verbatim>\<open>Flightplan::clear()\<close>: the plan becomes the freshly constructed
  one, whatever it held. The spec does not give the attributes of a fresh plan; here it
  is an IFR plan without entries, airports and alternates, at altitude and speed 0.
\<close>

datatype FlightplanType = IFR | VFR

record 'pos FlightplanEntry =
  navPoint :: "'pos NavPoint"
  airway :: "string option"
  altitudeConstraint :: "int option"
  direct :: bool

record 'pos Flightplan =
  entries :: "'pos FlightplanEntry list"
  flightplanType :: FlightplanType
  cruisingAlt :: int
  cruiseSpeed :: float
  departure :: "'pos MapAirport option"
  destination :: "'pos MapAirport option"
  alternates :: "'pos MapAirport list"

definition Flightplan_new :: "'pos Flightplan" where
  "Flightplan_new =
     \<lparr>entries = [], flightplanType = IFR, cruisingAlt = 0, cruiseSpeed = 0,
      departure = None, destination = None, alternates = []\<rparr>"

definition Flightplan_clear :: "'pos Flightplan \<Rightarrow> 'pos Flightplan" where
  "Flightplan_clear fp = Flightplan_new"

definition setFlightplanType :: "FlightplanType \<Rightarrow> 'pos Flightplan \<Rightarrow> 'pos Flightplan" where
  "setFlightplanType t fp = fp\<lparr>flightplanType := t\<rparr>"

section \<open>Route string options\<close>

text \<open>
  \<^verbatim>\<open>rs::RouteStringOptions\<close> is a \<^verbatim>\<open>QFlags\<close> over an \<^verbatim>\<open>int\<close>: a 32 bit word with the
  bitwise operators. The enumerators of \<^verbatim>\<open>namespace rs\<close> are declared in a header that is
  not part of the sources; the dialog uses them by name only, so their values are the
  fields of the record \<open>rs\<close>, a parameter of everything that names one.
\<close>

type_synonym RouteStringOptions = "32 word"

record rs =
  START_AND_DEST :: RouteStringOptions
  DCT :: RouteStringOptions
  ALT_AND_SPEED :: RouteStringOptions
  NO_AIRWAYS :: RouteStringOptions
  ALTERNATES :: RouteStringOptions
  SID_STAR :: RouteStringOptions
  SID_STAR_GENERIC :: RouteStringOptions
  SID_STAR_NONE :: RouteStringOptions
  STAR_REV_TRANSITION :: RouteStringOptions
  SID_STAR_SPACE :: RouteStringOptions
  READ_ALTERNATES :: RouteStringOptions
  READ_NO_AIRPORTS :: RouteStringOptions
  READ_MATCH_WAYPOINTS :: RouteStringOptions
  REPORT :: RouteStringOptions
  DEFAULT_OPTIONS :: RouteStringOptions

text \<open>\<^verbatim>\<open>static_cast<int>(options)\<close> and \<^verbatim>\<open>rs::RouteStringOptions(int)\<close>.\<close>

definition RouteStringOptions_toInt :: "RouteStringOptions \<Rightarrow> int" where
  "RouteStringOptions_toInt opts = sint opts"

definition RouteStringOptions_fromInt :: "int \<Rightarrow> RouteStringOptions" where
  "RouteStringOptions_fromInt i = word_of_int i"

text \<open>\<^verbatim>\<open>QFlags::operator Int()\<close> read as a \<^verbatim>\<open>bool\<close>: true when a bit is set.\<close>

definition testFlags :: "RouteStringOptions \<Rightarrow> bool" where
  "testFlags f = (f \<noteq> 0)"


section \<open>The route string dialog (src/routestring/routestringdialog.cpp)\<close>

subsection \<open>Qt: actions, the options menu and its exclusive action group\<close>

text \<open>
  A \<^verbatim>\<open>QAction\<close> of the options menu with what the dialog reads and writes of it:
  \<^verbatim>\<open>objectName()\<close>, \<^verbatim>\<open>data().toInt()\<close> (0 for an action without data, as a separator is),
  \<^verbatim>\<open>isCheckable()\<close>, \<^verbatim>\<open>isChecked()\<close>, \<^verbatim>\<open>isSeparator()\<close>, and whether it was added to
  \<^verbatim>\<open>procActionGroup\<close>. Texts and tool tips are left out.
\<close>

record QAction =
  objectName :: string
  data :: "32 word"
  checkable :: bool
  checked :: bool
  isSeparator :: bool
  inProcActionGroup :: bool

text \<open>
  The menu: \<^verbatim>\<open>menu()->actions()\<close> in the order they were added, and the checked action
  the \<^verbatim>\<open>QActionGroup\<close> remembers (\<^verbatim>\<open>QActionGroupPrivate::current\<close>), as an index into the
  list.
\<close>

record QMenu =
  actions :: "QAction list"
  procActionGroupCurrent :: "nat option"

text \<open>
  \<^verbatim>\<open>new QAction(..); setObjectName(..); setCheckable(true); setData(static_cast<int>(..))\<close>,
  \<^verbatim>\<open>addSeparator()\<close> and \<^verbatim>\<open>procActionGroup->addAction(action)\<close> of the constructor.
\<close>

definition newAction :: "string \<Rightarrow> RouteStringOptions \<Rightarrow> QAction" where
  "newAction n d =
     \<lparr>objectName = n, data = d, checkable = True, checked = False, isSeparator = False,
      inProcActionGroup = False\<rparr>"

definition addSeparator :: QAction where
  "addSeparator =
     \<lparr>objectName = [], data = 0, checkable = False, checked = False, isSeparator = True,
      inProcActionGroup = False\<rparr>"

definition addToProcActionGroup :: "QAction \<Rightarrow> QAction" where
  "addToProcActionGroup a = a\<lparr>inProcActionGroup := True\<rparr>"

text \<open>
  The options menu the constructor builds (lines 95 to 206); the action for
  \<^verbatim>\<open>rs::SID_STAR\<close> exists only if \<^verbatim>\<open>NavApp::hasSidStarInDatabase()\<close>.
\<close>

definition buttonMenuActions :: "rs \<Rightarrow> bool \<Rightarrow> QAction list" where
  "buttonMenuActions r sidStarInDatabase =
     [newAction ''actionDepartDest'' (START_AND_DEST r),
      newAction ''actionDct'' (DCT r),
      newAction ''actionSpeedAlt'' (ALT_AND_SPEED r),
      newAction ''actionWaypoints'' (NO_AIRWAYS r),
      newAction ''actionAlternates'' (ALTERNATES r),
      addSeparator]
     @ (if sidStarInDatabase
        then [addToProcActionGroup (newAction ''actionSidStar'' (SID_STAR r))] else [])
     @ [addToProcActionGroup (newAction ''actionGenericSidStar'' (SID_STAR_GENERIC r)),
        addToProcActionGroup (newAction ''actionNoSidStar'' (SID_STAR_NONE r)),
        addSeparator,
        newAction ''actionReversedStar'' (STAR_REV_TRANSITION r),
        newAction ''actionSpaceSidStar'' (SID_STAR_SPACE r),
        addSeparator,
        newAction ''actionTrailingAlternates'' (READ_ALTERNATES r),
        newAction ''actionNavaid'' (READ_NO_AIRPORTS r),
        newAction ''actionMatchCoords'' (READ_MATCH_WAYPOINTS r)]"

definition buttonMenu :: "rs \<Rightarrow> bool \<Rightarrow> QMenu" where
  "buttonMenu r sidStarInDatabase =
     \<lparr>actions = buttonMenuActions r sidStarInDatabase, procActionGroupCurrent = None\<rparr>"

text \<open>
  \<^verbatim>\<open>QAction::setChecked\<close>. Nothing happens for an action that is not checkable or already
  in the state asked for. Otherwise the state changes and \<^verbatim>\<open>changed()\<close> is emitted, to
  which the action's group listens: \<^verbatim>\<open>procActionGroup\<close> is a \<^verbatim>\<open>QActionGroup\<close> as
  constructed, which is exclusive, so when one of its actions becomes checked it unchecks
  the action it remembers and remembers the new one, and when the remembered action
  becomes unchecked it remembers none.
\<close>

definition setUnchecked :: "nat \<Rightarrow> QMenu \<Rightarrow> QMenu" where
  "setUnchecked j m =
     (if j < length (actions m) then
        (let a = actions m ! j in
         if \<not> checkable a \<or> \<not> checked a then m
         else
           (let m1 = m\<lparr>actions := (actions m)[j := a\<lparr>checked := False\<rparr>]\<rparr> in
            if inProcActionGroup a \<and> procActionGroupCurrent m1 = Some j
            then m1\<lparr>procActionGroupCurrent := None\<rparr> else m1))
      else m)"

definition setCheckedTrue :: "nat \<Rightarrow> QMenu \<Rightarrow> QMenu" where
  "setCheckedTrue i m =
     (if i < length (actions m) then
        (let a = actions m ! i in
         if \<not> checkable a \<or> checked a then m
         else
           (let m1 = m\<lparr>actions := (actions m)[i := a\<lparr>checked := True\<rparr>]\<rparr> in
            if \<not> inProcActionGroup a \<or> procActionGroupCurrent m1 = Some i then m1
            else
              (case procActionGroupCurrent m1 of
                 None \<Rightarrow> m1
               | Some j \<Rightarrow> setUnchecked j m1)\<lparr>procActionGroupCurrent := Some i\<rparr>))
      else m)"

definition setChecked :: "nat \<Rightarrow> bool \<Rightarrow> QMenu \<Rightarrow> QMenu" where
  "setChecked i b m = (if b then setCheckedTrue i m else setUnchecked i m)"

text \<open>
  \<^verbatim>\<open>QAction::activate(Trigger)\<close>, which a click on an action of the menu runs: a checkable
  action changes its state, except that the checked action of the exclusive group stays
  checked. The menu then emits \<^verbatim>\<open>triggered\<close>.
\<close>

definition activate :: "nat \<Rightarrow> QMenu \<Rightarrow> QMenu" where
  "activate i m =
     (if i < length (actions m) then
        (let a = actions m ! i in
         if checkable a then
           (if checked a \<and> inProcActionGroup a \<and> procActionGroupCurrent m = Some i then m
            else setChecked i (\<not> checked a) m)
         else m)
      else m)"

subsection \<open>The two loops over the menu\<close>

text \<open>
  The body and the loop of \<^verbatim>\<open>toolButtonOptionTriggered\<close> (lines 254 to 261): the menu state
  is copied into the options bit field, action by action.
\<close>

definition copyAction :: "RouteStringOptions \<Rightarrow> QAction \<Rightarrow> RouteStringOptions" where
  "copyAction opts act =
     (let opts' = data act in if checked act then opts OR opts' else opts AND NOT opts')"

definition copyMenuState :: "QAction list \<Rightarrow> RouteStringOptions \<Rightarrow> RouteStringOptions" where
  "copyMenuState acts opts = foldl copyAction opts acts"

text \<open>
  The loop of \<^verbatim>\<open>updateButtonState\<close> (lines 379 and 380): every action is set checked if
  its flag meets the options.
\<close>

definition copyOptionFlags :: "RouteStringOptions \<Rightarrow> QMenu \<Rightarrow> QMenu" where
  "copyOptionFlags opts m =
     foldl (\<lambda>m' i. setChecked i (testFlags (data (actions m' ! i) AND opts)) m')
       m [0..<length (actions m)]"


subsection \<open>Collaborators of the dialog\<close>

text \<open>
  The settings store behind \<^verbatim>\<open>atools::settings::Settings::instance()\<close>: values by key, an
  \<^verbatim>\<open>int\<close> or the bytes \<^verbatim>\<open>WidgetState\<close> stores. \<^verbatim>\<open>valueInt\<close> gives the default for a key that
  is not there and \<^verbatim>\<open>toInt()\<close> of the value otherwise; how Qt reads bytes as a number is
  the parameter \<open>bytesToInt\<close>.
\<close>

datatype QVariant = QVariant_Int int | QVariant_ByteArray string

type_synonym Settings = "string \<Rightarrow> QVariant option"

fun QVariant_toInt :: "(string \<Rightarrow> int) \<Rightarrow> QVariant \<Rightarrow> int" where
  "QVariant_toInt bytesToInt (QVariant_Int i) = i"
| "QVariant_toInt bytesToInt (QVariant_ByteArray b) = bytesToInt b"

definition setValue :: "string \<Rightarrow> QVariant \<Rightarrow> Settings \<Rightarrow> Settings" where
  "setValue k v st = st(k \<mapsto> v)"

definition valueInt :: "(string \<Rightarrow> int) \<Rightarrow> string \<Rightarrow> int \<Rightarrow> Settings \<Rightarrow> int" where
  "valueInt bytesToInt k dflt st =
     (case st k of None \<Rightarrow> dflt | Some v \<Rightarrow> QVariant_toInt bytesToInt v)"

text \<open>
  What \<^verbatim>\<open>atools::gui::WidgetState\<close> saves and restores for the dialog: the geometry of the
  dialog, the state of the splitter and the index of the flight plan type combo box.
\<close>

record Widgets =
  dialogGeometry :: string
  splitterRouteString :: string
  comboBoxRouteStringFlightplanType :: int

text \<open>
  The result of \<^verbatim>\<open>RouteStringReader::createRouteFromString\<close> as the dialog sees it: the
  flight plan it was given, filled; \<^verbatim>\<open>getMessages()\<close>; the speed, where the call writes
  one through \<^verbatim>\<open>&speedKts\<close>; and the flag written through \<^verbatim>\<open>&altitudeIncluded\<close>.
\<close>

record 'pos ReadResult =
  readFlightplan :: "'pos Flightplan"
  readMessages :: "string list"
  readSpeedKts :: "float option"
  readAltitudeIncluded :: bool

text \<open>
  Everything the dialog calls that is not in routestringdialog.cpp: the values of the
  \<^verbatim>\<open>rs\<close> enumerators, the two settings keys of \<^verbatim>\<open>namespace lnm\<close>, \<^verbatim>\<open>NavApp\<close>, the reader,
  the writer, \<^verbatim>\<open>rs::cleanRouteString\<close>, \<^verbatim>\<open>WidgetState\<close> and the reading of stored bytes as an
  \<^verbatim>\<open>int\<close>. \<open>'route\<close> is the type of \<^verbatim>\<open>NavApp::getRouteConst()\<close>.
\<close>

record ('pos, 'route) Env =
  rsValues :: rs
  ROUTE_STRING_DIALOG_SPLITTER :: string
  ROUTE_STRING_DIALOG_OPTIONS :: string
  hasSidStarInDatabase :: bool
  getRouteConst :: "'route"
  routeIsEmpty :: "'route \<Rightarrow> bool"
  getRouteCruiseSpeedKts :: float
  createStringForRoute :: "'route \<Rightarrow> float \<Rightarrow> RouteStringOptions \<Rightarrow> string"
  createRouteFromString ::
    "string \<Rightarrow> RouteStringOptions \<Rightarrow> 'pos Flightplan \<Rightarrow> 'pos ReadResult"
  cleanRouteString :: "string \<Rightarrow> string list"
  widgetStateSave :: "string \<Rightarrow> Widgets \<Rightarrow> Settings \<Rightarrow> Settings"
  widgetStateRestore :: "string \<Rightarrow> Settings \<Rightarrow> Widgets \<Rightarrow> Widgets"
  QByteArray_toInt :: "string \<Rightarrow> int"

subsection \<open>The dialog and its slots\<close>

text \<open>
  The members of \<^verbatim>\<open>RouteStringDialog\<close> and the widgets of its \<^verbatim>\<open>ui\<close> that the slots read
  or write. The text of the clipboard is global: the slots that read it take it as the
  argument \<open>clip\<close>.
\<close>

record 'pos RouteStringDialog =
  routeString :: string
  plainTextEditRouteString :: string
  textEditRouteStringErrors :: "string list"
  widgets :: Widgets
  menu :: QMenu
  pushButtonRouteStringUpdateEnabled :: bool
  buttonOkDisabled :: bool
  pushButtonRouteStringToClipboardDisabled :: bool
  pushButtonRouteStringFromClipboardDisabled :: bool
  textUpdateTimerActive :: bool
  updatingActions :: bool
  options :: RouteStringOptions
  flightplan :: "'pos Flightplan"
  speedKts :: float
  altitudeIncluded :: bool

text \<open>
  The constructor (lines 46 to 224), as far as these members go: it keeps the route
  string it is given, makes the flight plan, builds the options menu and sets up the
  timer. The members that the class declaration initialises (\<^verbatim>\<open>options\<close>,
  \<^verbatim>\<open>updatingActions\<close>, \<^verbatim>\<open>speedKts\<close>, \<^verbatim>\<open>altitudeIncluded\<close>; the header is not part of the
  sources) and the widgets as \<^verbatim>\<open>setupUi\<close> leaves them are those of \<open>d0\<close>.
\<close>

definition RouteStringDialog_new ::
  "('pos, 'route) Env \<Rightarrow> string \<Rightarrow> 'pos RouteStringDialog \<Rightarrow> 'pos RouteStringDialog" where
  "RouteStringDialog_new env routeStringParam d0 =
     d0\<lparr>routeString := routeStringParam,
        flightplan := Flightplan_new,
        menu := buttonMenu (rsValues env) (hasSidStarInDatabase env),
        textUpdateTimerActive := False\<rparr>"

text \<open>
  \<^verbatim>\<open>QChar::isSpace\<close> on the characters of \<open>string\<close> (eight bits, read as Latin-1), and
  \<^verbatim>\<open>QString::simplified().isEmpty()\<close>: true when the text is white space only.
\<close>

definition QChar_isSpace :: "char \<Rightarrow> bool" where
  "QChar_isSpace c =
     (let n = (of_char c :: nat) in n = 32 \<or> (9 \<le> n \<and> n \<le> 13) \<or> n = 133 \<or> n = 160)"

definition simplifiedIsEmpty :: "string \<Rightarrow> bool" where
  "simplifiedIsEmpty t = list_all QChar_isSpace t"

text \<open>\<^verbatim>\<open>QStringList::join\<close>.\<close>

fun join :: "string \<Rightarrow> string list \<Rightarrow> string" where
  "join sep [] = []"
| "join sep [x] = x"
| "join sep (x # y # ys) = x @ sep @ join sep (y # ys)"

definition updateButtonState ::
  "('pos, 'route) Env \<Rightarrow> string \<Rightarrow> 'pos RouteStringDialog \<Rightarrow> 'pos RouteStringDialog" where
  "updateButtonState env clip d =
     (let d1 = d\<lparr>pushButtonRouteStringUpdateEnabled := \<not> routeIsEmpty env (getRouteConst env),
                 buttonOkDisabled := (entries (flightplan d) = []),
                 pushButtonRouteStringToClipboardDisabled := (plainTextEditRouteString d = []),
                 pushButtonRouteStringFromClipboardDisabled := simplifiedIsEmpty clip\<rparr>;
          d2 = d1\<lparr>updatingActions := True\<rparr>;
          d3 = d2\<lparr>menu := copyOptionFlags (options d2) (menu d2)\<rparr>
      in d3\<lparr>updatingActions := False\<rparr>)"

definition textChangedDelayed ::
  "('pos, 'route) Env \<Rightarrow> string \<Rightarrow> 'pos RouteStringDialog \<Rightarrow> 'pos RouteStringDialog" where
  "textChangedDelayed env clip d =
     (let d1 = d\<lparr>flightplan := Flightplan_clear (flightplan d)\<rparr>;
          r = createRouteFromString env (plainTextEditRouteString d1)
                (options d1 OR REPORT (rsValues env)) (flightplan d1);
          d2 = d1\<lparr>flightplan := readFlightplan r,
                  speedKts := (case readSpeedKts r of None \<Rightarrow> speedKts d1 | Some v \<Rightarrow> v),
                  altitudeIncluded := readAltitudeIncluded r\<rparr>;
          d3 = d2\<lparr>textEditRouteStringErrors := map (\<lambda>err. err @ ''<br/>'') (readMessages r)\<rparr>
      in updateButtonState env clip d3)"

text \<open>
  \<^verbatim>\<open>ui->plainTextEditRouteString->setPlainText\<close>: the signal \<^verbatim>\<open>textChanged\<close> is connected
  to \<^verbatim>\<open>updateButtonState\<close> and to \<^verbatim>\<open>textChanged\<close>, which starts the single shot timer that
  calls \<^verbatim>\<open>textChangedDelayed\<close> when it runs out.
\<close>

definition textChanged :: "'pos RouteStringDialog \<Rightarrow> 'pos RouteStringDialog" where
  "textChanged d = d\<lparr>textUpdateTimerActive := True\<rparr>"

definition setPlainText ::
  "('pos, 'route) Env \<Rightarrow> string \<Rightarrow> string \<Rightarrow> 'pos RouteStringDialog \<Rightarrow> 'pos RouteStringDialog" where
  "setPlainText env clip t d =
     textChanged (updateButtonState env clip (d\<lparr>plainTextEditRouteString := t\<rparr>))"

definition textUpdateTimerTimeout ::
  "('pos, 'route) Env \<Rightarrow> string \<Rightarrow> 'pos RouteStringDialog \<Rightarrow> 'pos RouteStringDialog" where
  "textUpdateTimerTimeout env clip d =
     textChangedDelayed env clip (d\<lparr>textUpdateTimerActive := False\<rparr>)"

definition updateButtonClicked ::
  "('pos, 'route) Env \<Rightarrow> string \<Rightarrow> 'pos RouteStringDialog \<Rightarrow> 'pos RouteStringDialog" where
  "updateButtonClicked env clip d =
     textChangedDelayed env clip
       (setPlainText env clip
          (createStringForRoute env (getRouteConst env) (getRouteCruiseSpeedKts env) (options d)) d)"

definition toolButtonOptionTriggered ::
  "('pos, 'route) Env \<Rightarrow> string \<Rightarrow> 'pos RouteStringDialog \<Rightarrow> 'pos RouteStringDialog" where
  "toolButtonOptionTriggered env clip d =
     (if updatingActions d then d
      else textChangedDelayed env clip
             (d\<lparr>options := copyMenuState (actions (menu d)) (options d)\<rparr>))"

text \<open>
  A click on the action \<open>i\<close> of the options menu: the action is activated, and the signal
  \<^verbatim>\<open>QMenu::triggered\<close> of the menu is connected to \<^verbatim>\<open>toolButtonOptionTriggered\<close> (line 218).
\<close>

definition menuTriggered ::
  "('pos, 'route) Env \<Rightarrow> string \<Rightarrow> nat \<Rightarrow> 'pos RouteStringDialog \<Rightarrow> 'pos RouteStringDialog" where
  "menuTriggered env clip i d =
     toolButtonOptionTriggered env clip (d\<lparr>menu := activate i (menu d)\<rparr>)"

definition getFlightplan :: "'pos RouteStringDialog \<Rightarrow> 'pos Flightplan" where
  "getFlightplan d = flightplan d"

definition saveState ::
  "('pos, 'route) Env \<Rightarrow> 'pos RouteStringDialog \<Rightarrow> Settings \<Rightarrow> Settings" where
  "saveState env d st =
     setValue (ROUTE_STRING_DIALOG_OPTIONS env)
       (QVariant_Int (RouteStringOptions_toInt (options d)))
       (widgetStateSave env (ROUTE_STRING_DIALOG_SPLITTER env) (widgets d) st)"

definition getOptionsFromSettings :: "('pos, 'route) Env \<Rightarrow> Settings \<Rightarrow> RouteStringOptions" where
  "getOptionsFromSettings env st =
     RouteStringOptions_fromInt
       (valueInt (QByteArray_toInt env) (ROUTE_STRING_DIALOG_OPTIONS env)
          (RouteStringOptions_toInt (DEFAULT_OPTIONS (rsValues env))) st)"

definition restoreState ::
  "('pos, 'route) Env \<Rightarrow> string \<Rightarrow> Settings \<Rightarrow> 'pos RouteStringDialog \<Rightarrow> 'pos RouteStringDialog" where
  "restoreState env clip st d =
     (let d1 = d\<lparr>widgets := widgetStateRestore env (ROUTE_STRING_DIALOG_SPLITTER env) st (widgets d)\<rparr>;
          d2 = d1\<lparr>options := getOptionsFromSettings env st\<rparr>;
          d3 = updateButtonState env clip d2
      in if routeString d3 = []
         then setPlainText env clip
                (createStringForRoute env (getRouteConst env) (getRouteCruiseSpeedKts env)
                   (options d3)) d3
         else setPlainText env clip (routeString d3) d3)"

definition fromClipboardClicked ::
  "('pos, 'route) Env \<Rightarrow> string \<Rightarrow> 'pos RouteStringDialog \<Rightarrow> 'pos RouteStringDialog" where
  "fromClipboardClicked env clip d =
     textChangedDelayed env clip
       (setPlainText env clip (join '' '' (cleanRouteString env clip)) d)"

text \<open>
  \<^verbatim>\<open>toClipboardClicked\<close> gives the new text of the clipboard; its signal \<^verbatim>\<open>dataChanged\<close> is
  connected to \<^verbatim>\<open>updateButtonState\<close>.
\<close>

definition toClipboardClicked ::
  "('pos, 'route) Env \<Rightarrow> 'pos RouteStringDialog \<Rightarrow> string \<times> 'pos RouteStringDialog" where
  "toClipboardClicked env d =
     (plainTextEditRouteString d, updateButtonState env (plainTextEditRouteString d) d)"

definition updateFlightplan :: "'pos RouteStringDialog \<Rightarrow> 'pos RouteStringDialog" where
  "updateFlightplan d =
     (if comboBoxRouteStringFlightplanType (widgets d) = 0
      then d\<lparr>flightplan := setFlightplanType IFR (flightplan d)\<rparr>
      else d\<lparr>flightplan := setFlightplanType VFR (flightplan d)\<rparr>)"


section \<open>Cleaning a route string\<close>

text \<open>
  Modelled from the spec: \<^verbatim>\<open>rs::cleanRouteString\<close>, which is called by the dialog and not
  part of the sources. Section 4.2 has the tokens of a route string as "whitespace-split,
  case-normalized, with a pre-pass that strips punctuation noise from pasted clipboard
  text", the pre-pass being this function, and section 6 has it produce "a normalized
  token list from arbitrary pasted text". So: every punctuation character that is noise
  becomes a blank, the text is split at white space into its non-empty tokens, and the
  tokens are put in upper case. Which punctuation characters carry meaning inside a token
  (the dot of a dotted procedure name, for one) the spec does not list: they are the
  parameter \<open>keep\<close>, and every other punctuation character is noise.
\<close>

definition isPunct :: "char \<Rightarrow> bool" where
  "isPunct c =
     (let n = (of_char c :: nat)
      in (33 \<le> n \<and> n \<le> 47) \<or> (58 \<le> n \<and> n \<le> 64) \<or> (91 \<le> n \<and> n \<le> 96) \<or> (123 \<le> n \<and> n \<le> 126))"

definition toUpper :: "char \<Rightarrow> char" where
  "toUpper c =
     (let n = (of_char c :: nat) in if 97 \<le> n \<and> n \<le> 122 then char_of (n - 32) else c)"

definition stripNoise :: "char list \<Rightarrow> string \<Rightarrow> string" where
  "stripNoise keep t = map (\<lambda>c. if isPunct c \<and> c \<notin> set keep then CHR '' '' else c) t"

fun splitTokens :: "string \<Rightarrow> string \<Rightarrow> string list" where
  "splitTokens acc [] = (if acc = [] then [] else [acc])"
| "splitTokens acc (c # cs) =
     (if QChar_isSpace c
      then (if acc = [] then splitTokens [] cs else acc # splitTokens [] cs)
      else splitTokens (acc @ [c]) cs)"

definition rs_cleanRouteString :: "char list \<Rightarrow> string \<Rightarrow> string list" where
  "rs_cleanRouteString keep t = map (map toUpper) (splitTokens [] (stripNoise keep t))"

section \<open>Reading a route string\<close>

text \<open>
  Modelled from the spec: the route string reader of section 4.2,
  \<^verbatim>\<open>RouteStringReader::createRouteFromString\<close>, which is called by the dialog and not part of
  the sources. The collaborators of section 6 are the fields of \<open>NavDatabase\<close>: the
  airport lookup by identifier, the navaid and waypoint lookup giving the candidates, the
  airway lookup (by name and the two fixes it connects, giving the fixes between them),
  the procedure lookup by airport and name, and the query that snaps a coordinate to a
  waypoint nearby; with them \<^verbatim>\<open>Pos::isValid\<close>, the great circle distance and the reading of
  a raw coordinate, whose formats the spec does not give, and the punctuation that
  \<open>rs_cleanRouteString\<close> keeps. The reader takes what a lookup gives as it is.
\<close>

record 'pos NavDatabase =
  Pos_isValid :: "'pos \<Rightarrow> bool"
  distanceMeter :: "'pos \<Rightarrow> 'pos \<Rightarrow> real"
  parseCoordinate :: "string \<Rightarrow> 'pos option"
  keptPunctuation :: "char list"
  airportByIdent :: "string \<Rightarrow> 'pos MapAirport option"
  navaidsByIdent :: "string \<Rightarrow> 'pos NavPoint list"
  airwayFixes :: "string \<Rightarrow> 'pos NavPoint \<Rightarrow> 'pos NavPoint \<Rightarrow> 'pos NavPoint list option"
  procedureLegs :: "'pos MapAirport \<Rightarrow> string \<Rightarrow> 'pos NavPoint list option"
  nearestWaypoint :: "'pos \<Rightarrow> 'pos NavPoint option"

datatype Phase = EXPECT_START | EXPECT_BODY | EXPECT_END | EXPECT_ALTERNATES | DONE

text \<open>
  Modelled from the spec: the state of the reader of section 4.2 between two tokens. It
  holds the state of the machine, the plan and the messages so far, the previous resolved point, an airway leg that was recognised at the
  airway token and is emitted at the token of its exit fix, the mark of a \<^verbatim>\<open>DCT\<close> for the
  next leg, whether the next token was already used as the second word of a space-joined
  procedure name, and the cruise speed read and whether an altitude was given.
\<close>

record 'pos ReaderState =
  phase :: Phase
  plan :: "'pos Flightplan"
  messages :: "string list"
  previous :: "'pos NavPoint option"
  pendingAirway :: "(string \<times> 'pos NavPoint list) option"
  pendingDirect :: bool
  skipNext :: bool
  parsedSpeedKts :: "float option"
  parsedAltitudeIncluded :: bool

definition hasOption :: "RouteStringOptions \<Rightarrow> RouteStringOptions \<Rightarrow> bool" where
  "hasOption opts f = testFlags (opts AND f)"

definition addMessage :: "string \<Rightarrow> 'pos ReaderState \<Rightarrow> 'pos ReaderState" where
  "addMessage msg st = st\<lparr>messages := messages st @ [msg]\<rparr>"

definition appendEntry ::
  "'pos NavPoint \<Rightarrow> string option \<Rightarrow> 'pos ReaderState \<Rightarrow> 'pos ReaderState" where
  "appendEntry p aw st =
     st\<lparr>plan := (plan st)\<lparr>entries := entries (plan st) @
            [\<lparr>navPoint = p, airway = aw, altitudeConstraint = None, direct = pendingDirect st\<rparr>]\<rparr>,
        previous := Some p,
        pendingDirect := False\<rparr>"

fun appendEntries ::
  "'pos NavPoint list \<Rightarrow> string option \<Rightarrow> 'pos ReaderState \<Rightarrow> 'pos ReaderState" where
  "appendEntries [] aw st = st"
| "appendEntries (p # ps) aw st = appendEntries ps aw (appendEntry p aw st)"

text \<open>
  Modelled from the spec: the tie-break of rule (e) of section 4.2, the candidate at minimum distance to the previous resolved
  point, ties broken by ascending database id; without a previous point the ids alone
  decide.
\<close>

definition closer ::
  "'pos NavDatabase \<Rightarrow> 'pos NavPoint option \<Rightarrow> 'pos NavPoint \<Rightarrow> 'pos NavPoint \<Rightarrow> bool" where
  "closer db ref c b =
     (case ref of
        None \<Rightarrow> NavPoint_getId c < NavPoint_getId b
      | Some r \<Rightarrow>
          (let dc = distanceMeter db (NavPoint_getPosition r) (NavPoint_getPosition c);
               db' = distanceMeter db (NavPoint_getPosition r) (NavPoint_getPosition b)
           in dc < db' \<or> (dc = db' \<and> NavPoint_getId c < NavPoint_getId b)))"

fun nearest ::
  "'pos NavDatabase \<Rightarrow> 'pos NavPoint option \<Rightarrow> 'pos NavPoint \<Rightarrow> 'pos NavPoint list \<Rightarrow> 'pos NavPoint" where
  "nearest db ref best [] = best"
| "nearest db ref best (c # cs) = nearest db ref (if closer db ref c best then c else best) cs"

text \<open>
  Modelled from the spec: rule (a) of section 4.2, the speed and altitude instruction \<^verbatim>\<open>N<speed>F<flight level>\<close>, as the writer
  emits it (\<^verbatim>\<open>N420F350\<close> for 420 knots and 35000 feet).
\<close>

definition isDigit :: "char \<Rightarrow> bool" where
  "isDigit c = (let n = (of_char c :: nat) in 48 \<le> n \<and> n \<le> 57)"

definition digitsToNat :: "string \<Rightarrow> nat" where
  "digitsToNat ds = foldl (\<lambda>n c. 10 * n + (of_char c - 48)) 0 ds"

definition looksLikeSpeedAlt :: "string \<Rightarrow> bool" where
  "looksLikeSpeedAlt t =
     (case t of c # d # _ \<Rightarrow> c = CHR ''N'' \<and> isDigit d | _ \<Rightarrow> False)"

definition parseSpeedAlt :: "string \<Rightarrow> (nat \<times> nat) option" where
  "parseSpeedAlt t =
     (case t of
        [] \<Rightarrow> None
      | c # cs \<Rightarrow>
          if c = CHR ''N'' then
            (let sp = takeWhile isDigit cs in
             case dropWhile isDigit cs of
               [] \<Rightarrow> None
             | f # al \<Rightarrow>
                 if f = CHR ''F'' \<and> sp \<noteq> [] \<and> al \<noteq> [] \<and> list_all isDigit al
                 then Some (digitsToNat sp, digitsToNat al * 100) else None)
          else None)"

text \<open>
  Modelled from the spec: rule (e) of section 4.2, a plain identifier. No candidate: a diagnostic, and the token is
  skipped. Several candidates: the nearest one, with an informational message in report
  mode.
\<close>

definition plainIdentifier ::
  "'pos NavDatabase \<Rightarrow> rs \<Rightarrow> RouteStringOptions \<Rightarrow> 'pos ReaderState \<Rightarrow> string \<Rightarrow> 'pos ReaderState" where
  "plainIdentifier db r opts st t =
     (case navaidsByIdent db t of
        [] \<Rightarrow> addMessage (''Cannot find '' @ t) st
      | c # cs \<Rightarrow>
          (let st1 = (if cs \<noteq> [] \<and> hasOption opts (REPORT r)
                      then addMessage (''Found several for '' @ t) st else st)
           in appendEntry (nearest db (previous st) c cs) None st1))"

text \<open>
  Modelled from the spec: rule (d) of section 4.2. A raw coordinate pair is a literal position, or the waypoint nearby if
  \<^verbatim>\<open>READ_MATCH_WAYPOINTS\<close> is set and there is one.
\<close>

definition coordinate ::
  "'pos NavDatabase \<Rightarrow> rs \<Rightarrow> RouteStringOptions \<Rightarrow> string \<Rightarrow> 'pos NavPoint option" where
  "coordinate db r opts t =
     (case parseCoordinate db t of
        None \<Rightarrow> None
      | Some p \<Rightarrow>
          if hasOption opts (READ_MATCH_WAYPOINTS r) then
            (case nearestWaypoint db p of
               None \<Rightarrow> Some (Coordinate t p)
             | Some w \<Rightarrow> Some w)
          else Some (Coordinate t p))"

text \<open>
  Modelled from the spec: rule (b) of section 4.2, an airway name, if the previous resolved point has an onward segment of that
  airway to a fix the next token resolves to. The leg is the fixes in between and the
  exit fix.
\<close>

fun firstOnAirway ::
  "'pos NavDatabase \<Rightarrow> string \<Rightarrow> 'pos NavPoint \<Rightarrow> 'pos NavPoint list \<Rightarrow> 'pos NavPoint list option" where
  "firstOnAirway db aw from' [] = None"
| "firstOnAirway db aw from' (x # xs) =
     (case airwayFixes db aw from' x of
        None \<Rightarrow> firstOnAirway db aw from' xs
      | Some between \<Rightarrow> Some (between @ [x]))"

definition airwayLeg ::
  "'pos NavDatabase \<Rightarrow> 'pos ReaderState \<Rightarrow> string \<Rightarrow> string list \<Rightarrow> 'pos NavPoint list option" where
  "airwayLeg db st t rest =
     (case (previous st, rest) of
        (Some from', n # _) \<Rightarrow> firstOnAirway db t from' (navaidsByIdent db n)
      | _ \<Rightarrow> None)"

text \<open>
  Modelled from the spec: rule (c) of section 4.2, the name of a SID next to the departure airport or of a STAR next to the
  destination airport, dotted with its transition or, with \<^verbatim>\<open>SID_STAR_SPACE\<close>, followed by
  the transition as the next token. The result is the fixes of the procedure and whether
  the next token was used.
\<close>

definition procedureAt ::
  "'pos NavDatabase \<Rightarrow> rs \<Rightarrow> RouteStringOptions \<Rightarrow> 'pos MapAirport \<Rightarrow> string \<Rightarrow> string list \<Rightarrow>
   ('pos NavPoint list \<times> bool) option" where
  "procedureAt db r opts ap t rest =
     (case (if hasOption opts (SID_STAR_SPACE r)
            then (case rest of n # _ \<Rightarrow> procedureLegs db ap (t @ ''.'' @ n) | [] \<Rightarrow> None)
            else None) of
        Some legs \<Rightarrow> Some (legs, True)
      | None \<Rightarrow>
          (case procedureLegs db ap t of
             None \<Rightarrow> None
           | Some legs \<Rightarrow> Some (legs, False)))"

text \<open>
  Modelled from the spec: the token that must be the destination (\<^verbatim>\<open>EXPECT_END\<close>), the last
  one, or with \<^verbatim>\<open>READ_ALTERNATES\<close> the
  first of the airports the text ends with.
\<close>

definition isEndToken ::
  "'pos NavDatabase \<Rightarrow> rs \<Rightarrow> RouteStringOptions \<Rightarrow> string \<Rightarrow> string list \<Rightarrow> bool" where
  "isEndToken db r opts t rest =
     (if hasOption opts (READ_ALTERNATES r)
      then list_all (\<lambda>n. airportByIdent db n \<noteq> None) rest \<and>
           (rest = [] \<or> airportByIdent db t \<noteq> None)
      else rest = [])"

definition procedure ::
  "'pos NavDatabase \<Rightarrow> rs \<Rightarrow> RouteStringOptions \<Rightarrow> 'pos ReaderState \<Rightarrow> string \<Rightarrow> string list \<Rightarrow>
   ('pos NavPoint list \<times> bool) option" where
  "procedure db r opts st t rest =
     (case (if length (entries (plan st)) = 1 then departure (plan st) else None) of
        Some dep \<Rightarrow> procedureAt db r opts dep t rest
      | None \<Rightarrow>
          (case rest of
             n # rest' \<Rightarrow>
               if isEndToken db r opts n rest' then
                 (case airportByIdent db n of
                    Some dest \<Rightarrow> procedureAt db r opts dest t []
                  | None \<Rightarrow> None)
               else None
           | [] \<Rightarrow> None))"

text \<open>
  Modelled from the spec: a token of the body (\<^verbatim>\<open>EXPECT_BODY\<close>), classified in the order (a)
  to (e), then the tokens of the other states of the machine: the first token, which must
  be the departure airport unless \<^verbatim>\<open>READ_NO_AIRPORTS\<close> is set, the destination likewise,
  and the alternates, where the first failure ends the scan.
\<close>

definition bodyItem ::
  "'pos NavDatabase \<Rightarrow> rs \<Rightarrow> RouteStringOptions \<Rightarrow> 'pos ReaderState \<Rightarrow> string \<Rightarrow> string list \<Rightarrow>
   'pos ReaderState" where
  "bodyItem db r opts st t rest =
     (case pendingAirway st of
        Some (aw, leg) \<Rightarrow> appendEntries leg (Some aw) (st\<lparr>pendingAirway := None\<rparr>)
      | None \<Rightarrow>
          if t = ''DCT'' then st\<lparr>pendingDirect := True\<rparr>
          else if looksLikeSpeedAlt t then
            (case parseSpeedAlt t of
               Some (sp, alt) \<Rightarrow>
                 st\<lparr>plan := (plan st)\<lparr>cruisingAlt := int alt, cruiseSpeed := real sp\<rparr>,
                    parsedSpeedKts := Some (real sp),
                    parsedAltitudeIncluded := True\<rparr>
             | None \<Rightarrow> plainIdentifier db r opts st t)
          else
            (case airwayLeg db st t rest of
               Some leg \<Rightarrow> st\<lparr>pendingAirway := Some (t, leg)\<rparr>
             | None \<Rightarrow>
                 (case procedure db r opts st t rest of
                    Some (legs, used) \<Rightarrow> (appendEntries legs None st)\<lparr>skipNext := used\<rparr>
                  | None \<Rightarrow>
                      (case coordinate db r opts t of
                         Some p \<Rightarrow> appendEntry p None st
                       | None \<Rightarrow> plainIdentifier db r opts st t))))"

definition nextPhase ::
  "'pos NavDatabase \<Rightarrow> rs \<Rightarrow> RouteStringOptions \<Rightarrow> string list \<Rightarrow> Phase" where
  "nextPhase db r opts rest =
     (case rest of
        [] \<Rightarrow> DONE
      | n # rest' \<Rightarrow> if isEndToken db r opts n rest' then EXPECT_END else EXPECT_BODY)"

definition startItem ::
  "'pos NavDatabase \<Rightarrow> rs \<Rightarrow> RouteStringOptions \<Rightarrow> 'pos ReaderState \<Rightarrow> string \<Rightarrow> string list \<Rightarrow>
   'pos ReaderState" where
  "startItem db r opts st t rest =
     (if hasOption opts (READ_NO_AIRPORTS r) then bodyItem db r opts st t rest
      else
        (case airportByIdent db t of
           Some ap \<Rightarrow>
             (let st1 = appendEntry (Airport ap) None st
              in st1\<lparr>plan := (plan st1)\<lparr>departure := Some ap\<rparr>\<rparr>)
         | None \<Rightarrow>
             bodyItem db r opts (addMessage (''No departure airport '' @ t) st) t rest))"

definition endItem ::
  "'pos NavDatabase \<Rightarrow> rs \<Rightarrow> RouteStringOptions \<Rightarrow> 'pos ReaderState \<Rightarrow> string \<Rightarrow> string list \<Rightarrow>
   'pos ReaderState" where
  "endItem db r opts st t rest =
     (if hasOption opts (READ_NO_AIRPORTS r) then bodyItem db r opts st t rest
      else
        (case airportByIdent db t of
           Some ap \<Rightarrow>
             (let st1 = appendEntry (Airport ap) None (st\<lparr>pendingAirway := None\<rparr>)
              in st1\<lparr>plan := (plan st1)\<lparr>destination := Some ap\<rparr>\<rparr>)
         | None \<Rightarrow>
             bodyItem db r opts (addMessage (''No destination airport '' @ t) st) t rest))"

definition alternateItem ::
  "'pos NavDatabase \<Rightarrow> 'pos ReaderState \<Rightarrow> string \<Rightarrow> 'pos ReaderState" where
  "alternateItem db st t =
     (case airportByIdent db t of
        Some ap \<Rightarrow> st\<lparr>plan := (plan st)\<lparr>alternates := alternates (plan st) @ [ap]\<rparr>\<rparr>
      | None \<Rightarrow> (addMessage (''No alternate airport '' @ t) st)\<lparr>phase := DONE\<rparr>)"

text \<open>
  Modelled from the spec: one step of the machine of section 4.2, for the token \<open>t\<close> with
  the tokens \<open>rest\<close> after it, the run over all tokens, and the reader: the text is
  cleaned into tokens, and the machine runs over them from the plan it was given.
\<close>

definition step ::
  "'pos NavDatabase \<Rightarrow> rs \<Rightarrow> RouteStringOptions \<Rightarrow> 'pos ReaderState \<Rightarrow> string \<Rightarrow> string list \<Rightarrow>
   'pos ReaderState" where
  "step db r opts st t rest =
     (if skipNext st then st\<lparr>skipNext := False, phase := nextPhase db r opts rest\<rparr>
      else
        (case phase st of
           EXPECT_START \<Rightarrow> (startItem db r opts st t rest)\<lparr>phase := nextPhase db r opts rest\<rparr>
         | EXPECT_BODY \<Rightarrow> (bodyItem db r opts st t rest)\<lparr>phase := nextPhase db r opts rest\<rparr>
         | EXPECT_END \<Rightarrow>
             (endItem db r opts st t rest)
               \<lparr>phase := (if hasOption opts (READ_ALTERNATES r) then EXPECT_ALTERNATES else DONE)\<rparr>
         | EXPECT_ALTERNATES \<Rightarrow> alternateItem db st t
         | DONE \<Rightarrow> st))"

fun parse ::
  "'pos NavDatabase \<Rightarrow> rs \<Rightarrow> RouteStringOptions \<Rightarrow> 'pos ReaderState \<Rightarrow> string list \<Rightarrow>
   'pos ReaderState" where
  "parse db r opts st [] = st"
| "parse db r opts st (t # rest) = parse db r opts (step db r opts st t rest) rest"

definition initialState :: "'pos Flightplan \<Rightarrow> 'pos ReaderState" where
  "initialState fp =
     \<lparr>phase = EXPECT_START, plan = fp, messages = [], previous = None, pendingAirway = None,
      pendingDirect = False, skipNext = False, parsedSpeedKts = None,
      parsedAltitudeIncluded = False\<rparr>"

definition RouteStringReader_createRouteFromString ::
  "'pos NavDatabase \<Rightarrow> rs \<Rightarrow> string \<Rightarrow> RouteStringOptions \<Rightarrow> 'pos Flightplan \<Rightarrow> 'pos ReadResult" where
  "RouteStringReader_createRouteFromString db r routeString' opts fp =
     (let st = parse db r opts (initialState fp)
                 (rs_cleanRouteString (keptPunctuation db) routeString')
      in \<lparr>readFlightplan = plan st, readMessages = messages st,
          readSpeedKts = parsedSpeedKts st,
          readAltitudeIncluded = parsedAltitudeIncluded st\<rparr>)"

section \<open>Predicates and sample values of the statements\<close>

subsection \<open>Flags of a menu\<close>

text \<open>
  The union of the flags of all actions of a menu and the union of the flags of its
  checked actions; a menu whose actions carry pairwise disjoint flags; a flag that is one
  bit.
\<close>

definition allFlags :: "QAction list \<Rightarrow> RouteStringOptions" where
  "allFlags acts = foldr (\<lambda>a f. data a OR f) acts 0"

definition checkedFlags :: "QAction list \<Rightarrow> RouteStringOptions" where
  "checkedFlags acts = foldr (\<lambda>a f. if checked a then data a OR f else f) acts 0"

fun orthogonal :: "QAction list \<Rightarrow> bool" where
  "orthogonal [] = True"
| "orthogonal (a # as) = (list_all (\<lambda>b. data a AND data b = 0) as \<and> orthogonal as)"

definition singleBit :: "RouteStringOptions \<Rightarrow> bool" where
  "singleBit f = (f \<in> set (map (\<lambda>n. 2 ^ n) [0..<32]))"

text \<open>
  A menu as the constructor builds it, whatever is checked: an action that carries a flag
  is checkable and its flag is one bit; the action the group remembers is one of the
  group. And the options that an exclusive group can show: at most one action of the
  group has its flag set in them.
\<close>

definition menuFlagsOk :: "QAction list \<Rightarrow> bool" where
  "menuFlagsOk acts = list_all (\<lambda>a. data a = 0 \<or> (checkable a \<and> singleBit (data a))) acts"

definition groupCurrentOk :: "QMenu \<Rightarrow> bool" where
  "groupCurrentOk m =
     (case procActionGroupCurrent m of
        None \<Rightarrow> True
      | Some j \<Rightarrow> j < length (actions m) \<and> inProcActionGroup (actions m ! j))"

definition menuOk :: "'pos RouteStringDialog \<Rightarrow> bool" where
  "menuOk d = (menuFlagsOk (actions (menu d)) \<and> groupCurrentOk (menu d))"

fun atMostOne :: "('a \<Rightarrow> bool) \<Rightarrow> 'a list \<Rightarrow> bool" where
  "atMostOne P [] = True"
| "atMostOne P (x # xs) = (if P x then list_all (\<lambda>y. \<not> P y) xs else atMostOne P xs)"

definition exclusiveFlags :: "RouteStringOptions \<Rightarrow> QAction list \<Rightarrow> bool" where
  "exclusiveFlags opts acts =
     atMostOne (\<lambda>a. inProcActionGroup a \<and> testFlags (data a AND opts)) acts"

subsection \<open>Valid points of a plan\<close>

definition validEntries :: "'pos NavDatabase \<Rightarrow> 'pos FlightplanEntry list \<Rightarrow> bool" where
  "validEntries db es = list_all (\<lambda>e. NavPoint_isValid (Pos_isValid db) (navPoint e)) es"

definition validPoints :: "'pos NavDatabase \<Rightarrow> 'pos NavPoint list \<Rightarrow> bool" where
  "validPoints db ps = list_all (NavPoint_isValid (Pos_isValid db)) ps"


subsection \<open>The run of the reader, token by token\<close>


fun parseStates ::
  "'pos NavDatabase \<Rightarrow> rs \<Rightarrow> RouteStringOptions \<Rightarrow> 'pos ReaderState \<Rightarrow> string list \<Rightarrow>
   'pos ReaderState list" where
  "parseStates db r opts st [] = [st]"
| "parseStates db r opts st (t # rest) = st # parseStates db r opts (step db r opts st t rest) rest"


text \<open>What the reader added to the plan and to the messages between two states.\<close>

definition newEntries :: "'pos ReaderState \<Rightarrow> 'pos ReaderState \<Rightarrow> 'pos FlightplanEntry list" where
  "newEntries st st' = drop (length (entries (plan st))) (entries (plan st'))"

definition newMessages :: "'pos ReaderState \<Rightarrow> 'pos ReaderState \<Rightarrow> string list" where
  "newMessages st st' = drop (length (messages st)) (messages st')"

text \<open>The entries of a leg: the mark of a \<^verbatim>\<open>DCT\<close> goes to the first of them.\<close>

fun legEntries :: "'pos NavPoint list \<Rightarrow> string option \<Rightarrow> bool \<Rightarrow> 'pos FlightplanEntry list" where
  "legEntries [] aw d = []"
| "legEntries (p # ps) aw d =
     \<lparr>navPoint = p, airway = aw, altitudeConstraint = None, direct = d\<rparr> # legEntries ps aw False"

text \<open>
  A token that the reader may take without an entry and without a message: the second
  word of a procedure name, the keyword \<^verbatim>\<open>DCT\<close>, a speed and altitude instruction, the name
  of an airway whose leg was found, the name of a procedure that was found, and an
  alternate airport, which goes to the alternates of the plan.
\<close>

definition instruction ::
  "'pos NavDatabase \<Rightarrow> rs \<Rightarrow> RouteStringOptions \<Rightarrow> 'pos ReaderState \<Rightarrow> string \<Rightarrow> string list \<Rightarrow> bool" where
  "instruction db r opts st t rest =
     (skipNext st \<or> t = ''DCT'' \<or> parseSpeedAlt t \<noteq> None \<or> airwayLeg db st t rest \<noteq> None \<or>
      procedure db r opts st t rest \<noteq> None \<or>
      (phase st = EXPECT_ALTERNATES \<and> airportByIdent db t \<noteq> None))"

text \<open>
  A token that is left to rule (e) of section 4.2, the plain identifier: it is not the
  exit fix of an airway leg found before, not taken as the departure or the destination
  airport, and none of the rules (a) to (d) applies.
\<close>

definition plainToken ::
  "'pos NavDatabase \<Rightarrow> rs \<Rightarrow> RouteStringOptions \<Rightarrow> 'pos ReaderState \<Rightarrow> string \<Rightarrow> string list \<Rightarrow> bool" where
  "plainToken db r opts st t rest =
     (\<not> skipNext st \<and> pendingAirway st = None \<and>
      (phase st = EXPECT_BODY \<or>
       ((phase st = EXPECT_START \<or> phase st = EXPECT_END) \<and>
        (hasOption opts (READ_NO_AIRPORTS r) \<or> airportByIdent db t = None))) \<and>
      t \<noteq> ''DCT'' \<and> parseSpeedAlt t = None \<and> airwayLeg db st t rest = None \<and>
      procedure db r opts st t rest = None \<and> coordinate db r opts t = None)"

text \<open>
  The point \<open>p\<close> is the one of the candidates that rule (e) prefers: no candidate is nearer
  to the reference point, and of those at the same distance none has a smaller database
  id.
\<close>

definition nearestOf ::
  "'pos NavDatabase \<Rightarrow> 'pos NavPoint option \<Rightarrow> 'pos NavPoint list \<Rightarrow> 'pos NavPoint \<Rightarrow> bool" where
  "nearestOf db ref cands p =
     (p \<in> set cands \<and>
      list_all (\<lambda>q. \<not> closer db ref q p) cands \<and>
      (case ref of
         None \<Rightarrow> True
       | Some x \<Rightarrow>
           list_all (\<lambda>q. distanceMeter db (NavPoint_getPosition x) (NavPoint_getPosition p)
                          \<le> distanceMeter db (NavPoint_getPosition x) (NavPoint_getPosition q))
             cands))"

text \<open>
  What the reader does with one token \<open>t\<close>, from the state \<open>st\<close> before it to the state
  \<open>st'\<close> after it, with the tokens \<open>rest\<close> still to come. The plan and the messages only
  grow. Every message logged ends with the token. Unless the token is an instruction, an
  entry is added or a message is logged. A plain identifier
  without a candidate adds no entry and logs \<^verbatim>\<open>Cannot find\<close> with the token as the last
  message; one with candidates adds exactly one entry, the candidate nearest to the
  previous resolved point.
\<close>

definition tokenContract ::
  "'pos NavDatabase \<Rightarrow> rs \<Rightarrow> RouteStringOptions \<Rightarrow> 'pos ReaderState \<Rightarrow> string \<Rightarrow> string list \<Rightarrow>
   'pos ReaderState \<Rightarrow> bool" where
  "tokenContract db r opts st t rest st' =
     (entries (plan st') = entries (plan st) @ newEntries st st' \<and>
      messages st' = messages st @ newMessages st st' \<and>
      list_all (suffix t) (newMessages st st') \<and>
      (instruction db r opts st t rest \<or> newEntries st st' \<noteq> [] \<or> newMessages st st' \<noteq> []) \<and>
      (plainToken db r opts st t rest \<longrightarrow>
         (case navaidsByIdent db t of
            [] \<Rightarrow>
              newEntries st st' = [] \<and> newMessages st st' \<noteq> [] \<and>
              last (newMessages st st') = ''Cannot find '' @ t
          | c # cs \<Rightarrow>
              length (newEntries st st') = 1 \<and>
              nearestOf db (previous st) (c # cs) (navPoint (hd (newEntries st st'))))))"

text \<open>
  The invariants of the run. A pending airway leg holds valid points only. The
  state of the machine fits the tokens that are left: after the destination only
  alternate airports follow, and the machine is done only when no token is left. A pending
  airway leg is not empty, and the previous resolved point is the last point the reader
  added to the plan it was given.
\<close>

definition stateOk :: "'pos NavDatabase \<Rightarrow> 'pos ReaderState \<Rightarrow> bool" where
  "stateOk db st =
     (case pendingAirway st of None \<Rightarrow> True | Some (aw, leg) \<Rightarrow> validPoints db leg)"


definition previousOk :: "'pos Flightplan \<Rightarrow> 'pos ReaderState \<Rightarrow> bool" where
  "previousOk fp st =
     (length (entries fp) \<le> length (entries (plan st)) \<and>
      previous st =
        (if drop (length (entries fp)) (entries (plan st)) = [] then None
         else Some (navPoint (last (entries (plan st))))))"


subsection \<open>Sample values\<close>

text \<open>
  The flags of the actions of the menu, one bit each and no bit twice: what the spec
  calls orthogonal bits.
\<close>

definition menuFlags :: "rs \<Rightarrow> RouteStringOptions list" where
  "menuFlags r =
     [START_AND_DEST r, DCT r, ALT_AND_SPEED r, NO_AIRWAYS r, ALTERNATES r, SID_STAR r,
      SID_STAR_GENERIC r, SID_STAR_NONE r, STAR_REV_TRANSITION r, SID_STAR_SPACE r,
      READ_ALTERNATES r, READ_NO_AIRPORTS r, READ_MATCH_WAYPOINTS r]"

definition orthogonalBits :: "rs \<Rightarrow> bool" where
  "orthogonalBits r = (list_all singleBit (menuFlags r) \<and> distinct (menuFlags r))"

text \<open>
  A sample assignment of the enumerators of \<^verbatim>\<open>namespace rs\<close>, one bit each in the order of
  the fields, with the default options made of \<^verbatim>\<open>START_AND_DEST\<close>, \<^verbatim>\<open>ALT_AND_SPEED\<close>,
  \<^verbatim>\<open>ALTERNATES\<close>, \<^verbatim>\<open>SID_STAR\<close> and \<^verbatim>\<open>READ_ALTERNATES\<close>.
\<close>

definition rsSample :: rs where
  "rsSample =
     \<lparr>START_AND_DEST = 1, DCT = 2, ALT_AND_SPEED = 4, NO_AIRWAYS = 8, ALTERNATES = 16,
      SID_STAR = 32, SID_STAR_GENERIC = 64, SID_STAR_NONE = 128, STAR_REV_TRANSITION = 256,
      SID_STAR_SPACE = 512, READ_ALTERNATES = 1024, READ_NO_AIRPORTS = 2048,
      READ_MATCH_WAYPOINTS = 4096, REPORT = 8192, DEFAULT_OPTIONS = 1077\<rparr>"

text \<open>
  A sample reader, which adds one point named by the whole text to the plan it is given,
  and sample collaborators around it. Positions are integers in the samples.
\<close>

definition sampleReader :: "string \<Rightarrow> RouteStringOptions \<Rightarrow> int Flightplan \<Rightarrow> int ReadResult" where
  "sampleReader t opts fp =
     \<lparr>readFlightplan = fp\<lparr>entries := entries fp @
          [\<lparr>navPoint = Coordinate t 0, airway = None, altitudeConstraint = None, direct = False\<rparr>]\<rparr>,
      readMessages = [], readSpeedKts = None, readAltitudeIncluded = False\<rparr>"

definition sampleEnv :: "bool \<Rightarrow> (int, string list) Env" where
  "sampleEnv sidStarInDatabase =
     \<lparr>rsValues = rsSample,
      ROUTE_STRING_DIALOG_SPLITTER = ''RouteStringDialog/Splitter'',
      ROUTE_STRING_DIALOG_OPTIONS = ''RouteStringDialog/Options'',
      hasSidStarInDatabase = sidStarInDatabase,
      getRouteConst = [],
      routeIsEmpty = (\<lambda>route. route = []),
      getRouteCruiseSpeedKts = 0,
      createStringForRoute = (\<lambda>route kts opts. join '' '' route),
      createRouteFromString = sampleReader,
      cleanRouteString = (\<lambda>t. [t]),
      widgetStateSave = (\<lambda>k w st. st(k \<mapsto> QVariant_ByteArray (splitterRouteString w))),
      widgetStateRestore = (\<lambda>k st w. w),
      QByteArray_toInt = (\<lambda>b. 0)\<rparr>"

text \<open>
  A sample dialog as the constructor leaves it (nothing checked yet), with or without the
  action for \<^verbatim>\<open>rs::SID_STAR\<close>, with the given options and a text in the editor.
\<close>

definition sampleDialog :: "bool \<Rightarrow> RouteStringOptions \<Rightarrow> int RouteStringDialog" where
  "sampleDialog sidStarInDatabase opts =
     RouteStringDialog_new (sampleEnv sidStarInDatabase) []
       \<lparr>routeString = [],
        plainTextEditRouteString = ''KJFK DCT ALB'',
        textEditRouteStringErrors = [],
        widgets = \<lparr>dialogGeometry = [], splitterRouteString = [],
                   comboBoxRouteStringFlightplanType = 0\<rparr>,
        menu = \<lparr>actions = [], procActionGroupCurrent = None\<rparr>,
        pushButtonRouteStringUpdateEnabled = False,
        buttonOkDisabled = True,
        pushButtonRouteStringToClipboardDisabled = False,
        pushButtonRouteStringFromClipboardDisabled = True,
        textUpdateTimerActive = False,
        updatingActions = False,
        options = opts,
        flightplan = Flightplan_new,
        speedKts = 0,
        altitudeIncluded = False\<rparr>"

text \<open>
  A sample navigation database on a line: two airports, and two waypoints of the same
  name at different positions. A position is valid when it is not negative.
\<close>

definition sampleAirport :: "string \<Rightarrow> int \<Rightarrow> int \<Rightarrow> int MapAirport" where
  "sampleAirport i n p =
     \<lparr>MapAirport.ident = i, name = i, id' = n, longestRunwayLength = 0,
      longestRunwayHeading = 0, flags = 0, magvar = 0, towerFrequency = 0, atisFrequency = 0,
      awosFrequency = 0, asosFrequency = 0, unicomFrequency = 0, position = p, towerCoords = p,
      bounding = \<lparr>topLeft = p, bottomRight = p\<rparr>, routeIndex = - 1\<rparr>"

definition sampleWaypoint :: "string \<Rightarrow> int \<Rightarrow> int \<Rightarrow> int MapWaypoint" where
  "sampleWaypoint i n p =
     \<lparr>MapWaypoint.id' = n, magvar = 0, ident = i, region = [], type' = ''NAMED'',
      position = p, routeIndex = - 1, hasVictorAirways = False, hasJetAirways = False\<rparr>"

definition sampleParking :: "int MapParking" where
  "sampleParking =
     \<lparr>MapParking.type' = ''GATE_A'', name = ''GATE'', airlineCodes = [], id' = 4711,
      airportId = 1, position = 10, number = 12, radius = 18, heading = 90, jetway = True\<rparr>"

definition sampleDb :: "int NavDatabase" where
  "sampleDb =
     \<lparr>Pos_isValid = (\<lambda>p. 0 \<le> p),
      distanceMeter = (\<lambda>a b. real_of_int \<bar>a - b\<bar>),
      parseCoordinate = (\<lambda>t. None),
      keptPunctuation = ''./'',
      airportByIdent =
        (\<lambda>t. if t = ''KJFK'' then Some (sampleAirport ''KJFK'' 1 10)
             else if t = ''KBOS'' then Some (sampleAirport ''KBOS'' 2 50) else None),
      navaidsByIdent =
        (\<lambda>t. if t = ''ABC''
             then [Waypoint (sampleWaypoint ''ABC'' 7 90), Waypoint (sampleWaypoint ''ABC'' 8 20)]
             else []),
      airwayFixes = (\<lambda>aw a b. None),
      procedureLegs = (\<lambda>ap n. None),
      nearestWaypoint = (\<lambda>p. None)\<rparr>"

text \<open>A plan left over from an earlier read.\<close>

definition samplePlan :: "int Flightplan" where
  "samplePlan =
     Flightplan_new\<lparr>entries :=
       [\<lparr>navPoint = Coordinate ''OLD'' 5, airway = None, altitudeConstraint = None,
         direct = False\<rparr>]\<rparr>"

section \<open>Lemmas\<close>

subsection \<open>The loop that copies the menu into the options\<close>

lemma allFlags_simps [simp]:
  "allFlags [] = 0" "allFlags (a # as) = data a OR allFlags as"
  by (simp_all add: allFlags_def)

lemma checkedFlags_simps [simp]:
  "checkedFlags [] = 0"
  "checkedFlags (a # as) = (if checked a then data a OR checkedFlags as else checkedFlags as)"
  by (simp_all add: checkedFlags_def)

lemma copyMenuState_simps [simp]:
  "copyMenuState [] opts = opts"
  "copyMenuState (a # as) opts = copyMenuState as (copyAction opts a)"
  by (simp_all add: copyMenuState_def)

lemma disjoint_allFlags:
  "list_all (\<lambda>b. d AND data b = 0) as \<Longrightarrow> d AND allFlags as = 0"
  by (induction as) (simp_all add: bit.conj_disj_distrib)

lemma word_step_checked:
  fixes o' d F C :: "32 word"
  assumes "d AND F = 0"
  shows "((o' OR d) AND NOT F) OR C = (o' AND NOT (d OR F)) OR (d OR C)"
proof (rule bit_eqI)
  fix n
  from assms have "\<not> (bit d n \<and> bit F n)"
    by (metis bit_and_iff bit_0_eq bot_apply bot_bool_def)
  then show "bit (((o' OR d) AND NOT F) OR C) n = bit ((o' AND NOT (d OR F)) OR (d OR C)) n"
    by (auto simp add: bit_simps dest: bit_imp_le_length)
qed

lemma word_step_unchecked:
  fixes o' d F C :: "32 word"
  shows "((o' AND NOT d) AND NOT F) OR C = (o' AND NOT (d OR F)) OR C"
  by (rule bit_eqI) (auto simp add: bit_simps)

lemma copyMenuState_formula:
  "orthogonal acts \<Longrightarrow>
   copyMenuState acts opts = (opts AND NOT (allFlags acts)) OR checkedFlags acts"
proof (induction acts arbitrary: opts)
  case Nil
  then show ?case by simp
next
  case (Cons a as)
  then have d: "data a AND allFlags as = 0" and o: "orthogonal as"
    by (simp_all add: disjoint_allFlags)
  show ?case
    using Cons.IH [OF o, of "copyAction opts a"] d
    by (simp add: copyAction_def word_step_checked word_step_unchecked)
qed

lemma copyAction_frame: "copyAction opts a AND NOT (data a) = opts AND NOT (data a)"
  by (rule bit_eqI) (auto simp add: copyAction_def Let_def bit_simps)

lemma copyMenuState_frame:
  "copyMenuState acts opts AND NOT (allFlags acts) = opts AND NOT (allFlags acts)"
proof (induction acts arbitrary: opts)
  case Nil
  then show ?case by simp
next
  case (Cons a as)
  have "copyMenuState as (copyAction opts a) AND NOT (data a OR allFlags as)
      = (copyMenuState as (copyAction opts a) AND NOT (allFlags as)) AND NOT (data a)"
    by (rule bit_eqI) (auto simp add: bit_simps)
  also have "\<dots> = (copyAction opts a AND NOT (allFlags as)) AND NOT (data a)"
    by (simp add: Cons.IH)
  also have "\<dots> = (copyAction opts a AND NOT (data a)) AND NOT (allFlags as)"
    by (rule bit_eqI) (auto simp add: bit_simps)
  also have "\<dots> = (opts AND NOT (data a)) AND NOT (allFlags as)"
    by (simp add: copyAction_frame)
  also have "\<dots> = opts AND NOT (data a OR allFlags as)"
    by (rule bit_eqI) (auto simp add: bit_simps)
  finally show ?case by simp
qed

subsection \<open>Checking and unchecking an action\<close>

lemma singleBitD: "singleBit f \<Longrightarrow> \<exists>n<32. f = 2 ^ n"
  by (auto simp add: singleBit_def)

lemma atMostOneD:
  "atMostOne P xs \<Longrightarrow> i < length xs \<Longrightarrow> j < length xs \<Longrightarrow> i \<noteq> j \<Longrightarrow> P (xs ! i) \<Longrightarrow> \<not> P (xs ! j)"
proof (induction xs arbitrary: i j)
  case Nil
  then show ?case by simp
next
  case (Cons x xs)
  show ?case
  proof (cases "P x")
    case True
    with Cons.prems have all: "list_all (\<lambda>y. \<not> P y) xs" by simp
    show ?thesis
    proof (cases i)
      case 0
      with Cons.prems obtain j' where "j = Suc j'" "j' < length xs" by (cases j) auto
      with all show ?thesis by (simp add: list_all_length)
    next
      case (Suc i')
      with Cons.prems all show ?thesis by (simp add: list_all_length)
    qed
  next
    case False
    with Cons.prems have rest: "atMostOne P xs" by simp
    from False Cons.prems obtain i' where i: "i = Suc i'" by (cases i) auto
    show ?thesis
    proof (cases j)
      case 0
      with False show ?thesis by simp
    next
      case (Suc j')
      with i Cons.prems Cons.IH [OF rest, of i' j'] show ?thesis by simp
    qed
  qed
qed

lemma setUnchecked_length [simp]: "length (actions (setUnchecked j m)) = length (actions m)"
  by (simp add: setUnchecked_def Let_def)

lemma setUnchecked_static:
  "data (actions (setUnchecked j m) ! k) = data (actions m ! k)"
  "checkable (actions (setUnchecked j m) ! k) = checkable (actions m ! k)"
  "inProcActionGroup (actions (setUnchecked j m) ! k) = inProcActionGroup (actions m ! k)"
  by (simp_all add: setUnchecked_def Let_def nth_list_update)

lemma setUnchecked_other:
  "k \<noteq> j \<Longrightarrow> checked (actions (setUnchecked j m) ! k) = checked (actions m ! k)"
  by (simp add: setUnchecked_def Let_def)

lemma setUnchecked_self:
  "j < length (actions m) \<Longrightarrow> checkable (actions m ! j) \<Longrightarrow>
   \<not> checked (actions (setUnchecked j m) ! j)"
  by (simp add: setUnchecked_def Let_def)

lemma setUnchecked_current:
  "procActionGroupCurrent (setUnchecked j m) = procActionGroupCurrent m \<or>
   procActionGroupCurrent (setUnchecked j m) = None"
  by (simp add: setUnchecked_def Let_def)

lemma setUnchecked_groupCurrentOk:
  "groupCurrentOk m \<Longrightarrow> groupCurrentOk (setUnchecked j m)"
  using setUnchecked_current [of j m]
  by (auto simp add: groupCurrentOk_def setUnchecked_static split: option.splits)

lemma setCheckedTrue_length [simp]: "length (actions (setCheckedTrue i m)) = length (actions m)"
  by (simp add: setCheckedTrue_def Let_def split: option.splits)

lemma setCheckedTrue_static:
  "data (actions (setCheckedTrue i m) ! k) = data (actions m ! k)"
  "checkable (actions (setCheckedTrue i m) ! k) = checkable (actions m ! k)"
  "inProcActionGroup (actions (setCheckedTrue i m) ! k) = inProcActionGroup (actions m ! k)"
  by (simp_all add: setCheckedTrue_def Let_def nth_list_update setUnchecked_static split: option.splits)

lemma setCheckedTrue_self:
  "i < length (actions m) \<Longrightarrow> checkable (actions m ! i) \<Longrightarrow>
   checked (actions (setCheckedTrue i m) ! i)"
  by (auto simp add: setCheckedTrue_def Let_def setUnchecked_other split: option.splits)

lemma setCheckedTrue_other:
  "k \<noteq> i \<Longrightarrow> procActionGroupCurrent m \<noteq> Some k \<Longrightarrow>
   checked (actions (setCheckedTrue i m) ! k) = checked (actions m ! k)"
  by (auto simp add: setCheckedTrue_def Let_def setUnchecked_other split: option.splits)

lemma setCheckedTrue_current:
  "k \<noteq> i \<Longrightarrow> procActionGroupCurrent m = Some k \<Longrightarrow> k < length (actions m) \<Longrightarrow>
   checkable (actions m ! k) \<Longrightarrow>
   checked (actions (setCheckedTrue i m) ! k) = checked (actions m ! k) \<or>
   (inProcActionGroup (actions m ! i) \<and> \<not> checked (actions (setCheckedTrue i m) ! k))"
  by (auto simp add: setCheckedTrue_def Let_def setUnchecked_self split: option.splits)

lemma setCheckedTrue_groupCurrentOk:
  "groupCurrentOk m \<Longrightarrow> groupCurrentOk (setCheckedTrue i m)"
  by (auto simp add: groupCurrentOk_def setCheckedTrue_def Let_def nth_list_update
      setUnchecked_static split: option.splits)

subsection \<open>The loop that copies the options into the menu\<close>

lemma setChecked_length [simp]: "length (actions (setChecked i b m)) = length (actions m)"
  by (simp add: setChecked_def)

lemma setChecked_static:
  "data (actions (setChecked i b m) ! k) = data (actions m ! k)"
  "checkable (actions (setChecked i b m) ! k) = checkable (actions m ! k)"
  "inProcActionGroup (actions (setChecked i b m) ! k) = inProcActionGroup (actions m ! k)"
  by (simp_all add: setChecked_def setCheckedTrue_static setUnchecked_static)

lemma setChecked_groupCurrentOk: "groupCurrentOk m \<Longrightarrow> groupCurrentOk (setChecked i b m)"
  by (simp add: setChecked_def setCheckedTrue_groupCurrentOk setUnchecked_groupCurrentOk)

lemma setChecked_step:
  assumes k: "k < length (actions m)"
    and cur: "groupCurrentOk m"
    and excl: "\<And>i j. i < length (actions m) \<Longrightarrow> j < length (actions m) \<Longrightarrow> i \<noteq> j \<Longrightarrow>
        inProcActionGroup (actions m ! i) \<Longrightarrow> testFlags (data (actions m ! i) AND opts) \<Longrightarrow>
        inProcActionGroup (actions m ! j) \<Longrightarrow> \<not> testFlags (data (actions m ! j) AND opts)"
    and before: "\<And>i. i < k \<Longrightarrow> checkable (actions m ! i) \<Longrightarrow>
        checked (actions m ! i) = testFlags (data (actions m ! i) AND opts)"
    and i: "i < Suc k" "checkable (actions m ! i)"
  shows "checked (actions (setChecked k (testFlags (data (actions m ! k) AND opts)) m) ! i)
       = testFlags (data (actions m ! i) AND opts)"
proof (cases "testFlags (data (actions m ! k) AND opts)")
  case False
  show ?thesis
  proof (cases "i = k")
    case True
    with False i k show ?thesis by (simp add: setChecked_def setUnchecked_self)
  next
    case neq: False
    with i have "i < k" by simp
    with False neq i before show ?thesis by (simp add: setChecked_def setUnchecked_other)
  qed
next
  case True
  show ?thesis
  proof (cases "i = k")
    case eq: True
    with True i k show ?thesis by (simp add: setChecked_def setCheckedTrue_self)
  next
    case neq: False
    with i have ik: "i < k" by simp
    show ?thesis
    proof (cases "procActionGroupCurrent m = Some i")
      case False
      with True neq ik i before show ?thesis by (simp add: setChecked_def setCheckedTrue_other)
    next
      case curi: True
      with cur have gi: "inProcActionGroup (actions m ! i)" by (simp add: groupCurrentOk_def)
      from ik k have il: "i < length (actions m)" by simp
      from setCheckedTrue_current [OF neq curi il i(2)]
      show ?thesis
      proof
        assume "checked (actions (setCheckedTrue k m) ! i) = checked (actions m ! i)"
        with True ik i before show ?thesis by (simp add: setChecked_def)
      next
        assume a: "inProcActionGroup (actions m ! k) \<and> \<not> checked (actions (setCheckedTrue k m) ! i)"
        with excl [OF k il _ _ True gi] neq have "\<not> testFlags (data (actions m ! i) AND opts)"
          by auto
        with a True show ?thesis by (simp add: setChecked_def)
      qed
    qed
  qed
qed

lemma copyOptionFlags_inv:
  assumes cur: "groupCurrentOk m0"
    and excl: "\<forall>i j. i < length (actions m0) \<longrightarrow> j < length (actions m0) \<longrightarrow> i \<noteq> j \<longrightarrow>
        inProcActionGroup (actions m0 ! i) \<longrightarrow> testFlags (data (actions m0 ! i) AND opts) \<longrightarrow>
        inProcActionGroup (actions m0 ! j) \<longrightarrow> \<not> testFlags (data (actions m0 ! j) AND opts)"
  shows "k \<le> length (actions m0) \<Longrightarrow>
     (let m = foldl (\<lambda>m' i. setChecked i (testFlags (data (actions m' ! i) AND opts)) m') m0 [0..<k]
      in length (actions m) = length (actions m0) \<and>
         (\<forall>i. data (actions m ! i) = data (actions m0 ! i) \<and>
              checkable (actions m ! i) = checkable (actions m0 ! i) \<and>
              inProcActionGroup (actions m ! i) = inProcActionGroup (actions m0 ! i)) \<and>
         groupCurrentOk m \<and>
         (\<forall>i<k. checkable (actions m0 ! i) \<longrightarrow>
            checked (actions m ! i) = testFlags (data (actions m0 ! i) AND opts)))"
proof (induction k)
  case 0
  with cur show ?case by simp
next
  case (Suc k)
  define m where "m = foldl (\<lambda>m' i. setChecked i (testFlags (data (actions m' ! i) AND opts)) m') m0 [0..<k]"
  from Suc have len: "length (actions m) = length (actions m0)"
    and st: "\<And>i. data (actions m ! i) = data (actions m0 ! i)"
      "\<And>i. checkable (actions m ! i) = checkable (actions m0 ! i)"
      "\<And>i. inProcActionGroup (actions m ! i) = inProcActionGroup (actions m0 ! i)"
    and curm: "groupCurrentOk m"
    and before: "\<And>i. i < k \<Longrightarrow> checkable (actions m0 ! i) \<Longrightarrow>
        checked (actions m ! i) = testFlags (data (actions m0 ! i) AND opts)"
    by (simp_all add: m_def Let_def)
  define m' where "m' = setChecked k (testFlags (data (actions m ! k) AND opts)) m"
  have fold: "foldl (\<lambda>m' i. setChecked i (testFlags (data (actions m' ! i) AND opts)) m') m0 [0..<Suc k] = m'"
    by (simp add: m_def m'_def)
  from Suc.prems len have k: "k < length (actions m)" by simp
  have exclm: "\<not> testFlags (data (actions m ! j) AND opts)"
    if "i < length (actions m)" "j < length (actions m)" "i \<noteq> j"
      "inProcActionGroup (actions m ! i)" "testFlags (data (actions m ! i) AND opts)"
      "inProcActionGroup (actions m ! j)" for i j
    using excl that by (simp add: len st)
  have beforem: "checked (actions m ! i) = testFlags (data (actions m ! i) AND opts)"
    if "i < k" "checkable (actions m ! i)" for i
    using before that by (simp add: st)
  have step: "checked (actions m' ! i) = testFlags (data (actions m0 ! i) AND opts)"
    if "i < Suc k" "checkable (actions m0 ! i)" for i
  proof -
    from that have c: "checkable (actions m ! i)" by (simp add: st)
    have "checked (actions m' ! i) = testFlags (data (actions m ! i) AND opts)"
      unfolding m'_def
      by (rule setChecked_step [OF k curm exclm beforem that(1) c])
    then show ?thesis by (simp add: st)
  qed
  show ?case
    unfolding fold Let_def
    using len st curm step
    by (simp add: m'_def setChecked_static setChecked_groupCurrentOk)
qed

lemma pow2_and_test:
  fixes w :: "32 word"
  assumes "n < 32"
  shows "testFlags (2 ^ n AND w) = bit w n"
proof -
  have "(2 ^ n AND w = 0) = (\<not> bit w n)"
    using assms by (metis and.commute and_exp_eq_0_iff_not_bit)
  then show ?thesis by (simp add: testFlags_def)
qed

lemma copyAction_fixed:
  assumes "data a = 0 \<or> (singleBit (data a) \<and> checked a = testFlags (data a AND opts))"
  shows "copyAction opts a = opts"
  using assms
proof
  assume "data a = 0"
  then show ?thesis by (simp add: copyAction_def)
next
  assume s: "singleBit (data a) \<and> checked a = testFlags (data a AND opts)"
  then obtain n where n: "n < 32" "data a = 2 ^ n" using singleBitD by blast
  with s have c: "checked a = bit opts n" by (simp add: pow2_and_test)
  show ?thesis
  proof (rule bit_eqI)
    fix k
    show "bit (copyAction opts a) k = bit opts k"
      using n c bit_imp_le_length [of opts k]
      by (auto simp add: copyAction_def bit_simps)
  qed
qed

lemma copyMenuState_fixed:
  "(\<And>a. a \<in> set acts \<Longrightarrow>
      data a = 0 \<or> (singleBit (data a) \<and> checked a = testFlags (data a AND opts))) \<Longrightarrow>
   copyMenuState acts opts = opts"
  by (induction acts) (simp_all add: copyAction_fixed)

lemma sync_then_copy:
  assumes ok: "menuFlagsOk (actions m)" and cur: "groupCurrentOk m"
    and excl: "exclusiveFlags opts (actions m)"
  shows "copyMenuState (actions (copyOptionFlags opts m)) opts = opts"
proof -
  let ?m = "copyOptionFlags opts m"
  have excl': "\<forall>i j. i < length (actions m) \<longrightarrow> j < length (actions m) \<longrightarrow> i \<noteq> j \<longrightarrow>
        inProcActionGroup (actions m ! i) \<longrightarrow> testFlags (data (actions m ! i) AND opts) \<longrightarrow>
        inProcActionGroup (actions m ! j) \<longrightarrow> \<not> testFlags (data (actions m ! j) AND opts)"
  proof (intro allI impI)
    fix i j
    assume a: "i < length (actions m)" "j < length (actions m)" "i \<noteq> j"
      "inProcActionGroup (actions m ! i)" "testFlags (data (actions m ! i) AND opts)"
      "inProcActionGroup (actions m ! j)"
    from atMostOneD [OF excl [unfolded exclusiveFlags_def] a(1,2,3)] a
    show "\<not> testFlags (data (actions m ! j) AND opts)" by simp
  qed
  from copyOptionFlags_inv [where ?m0.0 = m and opts = opts and k = "length (actions m)", OF cur excl']
  have len: "length (actions ?m) = length (actions m)"
    and st: "\<And>i. data (actions ?m ! i) = data (actions m ! i)"
    and fin: "\<And>i. i < length (actions m) \<Longrightarrow> checkable (actions m ! i) \<Longrightarrow>
        checked (actions ?m ! i) = testFlags (data (actions m ! i) AND opts)"
    by (simp_all add: copyOptionFlags_def Let_def)
  show ?thesis
  proof (rule copyMenuState_fixed)
    fix a assume "a \<in> set (actions ?m)"
    then obtain i where i: "i < length (actions m)" "a = actions ?m ! i"
      by (auto simp add: in_set_conv_nth len)
    from ok i have "data (actions m ! i) = 0 \<or>
        (checkable (actions m ! i) \<and> singleBit (data (actions m ! i)))"
      by (simp add: menuFlagsOk_def list_all_length)
    with i st fin show "data a = 0 \<or> (singleBit (data a) \<and> checked a = testFlags (data a AND opts))"
      by auto
  qed
qed

subsection \<open>The slots of the dialog\<close>

lemma updateButtonState_simps [simp]:
  "options (updateButtonState env clip d) = options d"
  "updatingActions (updateButtonState env clip d) = False"
  "menu (updateButtonState env clip d) = copyOptionFlags (options d) (menu d)"
  "flightplan (updateButtonState env clip d) = flightplan d"
  "plainTextEditRouteString (updateButtonState env clip d) = plainTextEditRouteString d"
  by (simp_all add: updateButtonState_def Let_def)

lemma textChangedDelayed_simps [simp]:
  "options (textChangedDelayed env clip d) = options d"
  "flightplan (textChangedDelayed env clip d) =
     readFlightplan (createRouteFromString env (plainTextEditRouteString d)
       (options d OR REPORT (rsValues env)) Flightplan_new)"
  "plainTextEditRouteString (textChangedDelayed env clip d) = plainTextEditRouteString d"
  by (simp_all add: textChangedDelayed_def Let_def Flightplan_clear_def)

lemma options_after_toolButtonOptionTriggered:
  "options (toolButtonOptionTriggered env clip d) =
     (if updatingActions d then options d else copyMenuState (actions (menu d)) (options d))"
  by (simp add: toolButtonOptionTriggered_def)

lemma setPlainText_options [simp]: "options (setPlainText env clip t d) = options d"
  by (simp add: setPlainText_def textChanged_def)

lemma restoreState_options [simp]:
  "options (restoreState env clip st d) = getOptionsFromSettings env st"
  by (simp add: restoreState_def Let_def)

lemma getOptions_saveState: "getOptionsFromSettings env (saveState env d st) = options d"
  by (simp add: getOptionsFromSettings_def saveState_def valueInt_def setValue_def
      RouteStringOptions_fromInt_def RouteStringOptions_toInt_def)

subsection \<open>The menu of the constructor\<close>

lemma sampleDialog_simps [simp]:
  "menu (sampleDialog b opts) = buttonMenu rsSample b"
  "options (sampleDialog b opts) = opts"
  "updatingActions (sampleDialog b opts) = False"
  "flightplan (sampleDialog b opts) = Flightplan_new"
  "plainTextEditRouteString (sampleDialog b opts) = ''KJFK DCT ALB''"
  by (simp_all add: sampleDialog_def RouteStringDialog_new_def sampleEnv_def)

lemmas menu_defs = buttonMenu_def buttonMenuActions_def newAction_def
  addSeparator_def addToProcActionGroup_def rsSample_def

lemma upt16: "[0..<16] = [0,1,2,3,4,5,6,7,8,9,10,11,12,13,14,15]"
  by (simp add: upt_rec)

lemma singleBit_sample:
  "singleBit 1" "singleBit 2" "singleBit 4" "singleBit 8" "singleBit 16" "singleBit 32"
  "singleBit 64" "singleBit 128" "singleBit 256" "singleBit 512" "singleBit 1024"
  "singleBit 2048" "singleBit 4096" "singleBit 8192"
  by (simp_all add: singleBit_def upt_rec)

lemma buttonMenu_menuFlagsOk:
  assumes "list_all singleBit (menuFlags r)"
  shows "menuFlagsOk (actions (buttonMenu r b))"
  using assms
  by (simp add: menuFlagsOk_def menuFlags_def buttonMenu_def buttonMenuActions_def
      newAction_def addSeparator_def addToProcActionGroup_def)

lemma buttonMenu_groupCurrentOk: "groupCurrentOk (buttonMenu r b)"
  by (simp add: groupCurrentOk_def buttonMenu_def)

lemma copyOptionFlags_fold_groupCurrentOk:
  "groupCurrentOk m \<Longrightarrow>
   groupCurrentOk
     (foldl (\<lambda>m' i. setChecked i (testFlags (data (actions m' ! i) AND opts)) m') m is)"
  by (induction "is" arbitrary: m) (simp_all add: setChecked_groupCurrentOk)

lemma copyOptionFlags_fold_static:
  "length (actions
     (foldl (\<lambda>m' i. setChecked i (testFlags (data (actions m' ! i) AND opts)) m') m is))
     = length (actions m)
   \<and> (\<forall>k. data (actions
       (foldl (\<lambda>m' i. setChecked i (testFlags (data (actions m' ! i) AND opts)) m') m is) ! k)
         = data (actions m ! k)
       \<and> checkable (actions
       (foldl (\<lambda>m' i. setChecked i (testFlags (data (actions m' ! i) AND opts)) m') m is) ! k)
         = checkable (actions m ! k))"
  by (induction "is" arbitrary: m) (simp_all add: setChecked_static)

lemma copyOptionFlags_invariant:
  assumes "menuFlagsOk (actions m)" and "groupCurrentOk m"
  shows "menuFlagsOk (actions (copyOptionFlags opts m)) \<and> groupCurrentOk (copyOptionFlags opts m)"
proof
  from copyOptionFlags_fold_static [of opts m "[0..<length (actions m)]"] assms(1)
  show "menuFlagsOk (actions (copyOptionFlags opts m))"
    by (simp add: menuFlagsOk_def copyOptionFlags_def list_all_length)
  from assms(2) show "groupCurrentOk (copyOptionFlags opts m)"
    by (simp add: copyOptionFlags_def copyOptionFlags_fold_groupCurrentOk)
qed

lemma singleBit_disjoint:
  assumes "singleBit a" and "singleBit b" and "a \<noteq> b"
  shows "a AND b = 0"
proof -
  from assms obtain m n where m: "m < 32" "a = 2 ^ m" and n: "n < 32" "b = 2 ^ n"
    using singleBitD by blast
  with assms(3) have "m \<noteq> n" by auto
  show ?thesis
  proof (rule bit_eqI)
    fix k
    show "bit (a AND b) k = bit (0 :: 32 word) k"
      using m n \<open>m \<noteq> n\<close> by (auto simp add: bit_simps)
  qed
qed

lemma buttonMenu_orthogonal:
  assumes "orthogonalBits r"
  shows "orthogonal (actions (buttonMenu r b))"
proof -
  from assms have s: "list_all singleBit (menuFlags r)" and d: "distinct (menuFlags r)"
    by (simp_all add: orthogonalBits_def)
  have "x AND y = 0" if "x \<in> set (menuFlags r)" "y \<in> set (menuFlags r)" "x \<noteq> y" for x y
    using that s by (auto simp add: list_all_iff intro: singleBit_disjoint)
  with d show ?thesis
    by (simp add: menuFlags_def buttonMenu_def buttonMenuActions_def newAction_def
        addSeparator_def addToProcActionGroup_def)
qed

text \<open>
  The menu of a dialog is as the constructor builds it, up to what is checked, after the
  constructor and after every slot.
\<close>

lemma menuOk_new:
  "list_all singleBit (menuFlags (rsValues env)) \<Longrightarrow> menuOk (RouteStringDialog_new env t d0)"
  by (simp add: menuOk_def RouteStringDialog_new_def buttonMenu_menuFlagsOk
      buttonMenu_groupCurrentOk)

lemma menuOk_updateButtonState: "menuOk d \<Longrightarrow> menuOk (updateButtonState env clip d)"
  by (simp add: menuOk_def copyOptionFlags_invariant)

lemma menuOk_fields [simp]:
  "menuOk (d\<lparr>options := opts\<rparr>) = menuOk d"
  "menuOk (d\<lparr>flightplan := fp\<rparr>) = menuOk d"
  "menuOk (d\<lparr>plainTextEditRouteString := t\<rparr>) = menuOk d"
  "menuOk (d\<lparr>textUpdateTimerActive := b\<rparr>) = menuOk d"
  "menuOk (d\<lparr>widgets := w\<rparr>) = menuOk d"
  "menuOk (d\<lparr>speedKts := s\<rparr>) = menuOk d"
  "menuOk (d\<lparr>altitudeIncluded := b\<rparr>) = menuOk d"
  "menuOk (d\<lparr>textEditRouteStringErrors := e\<rparr>) = menuOk d"
  by (simp_all add: menuOk_def)

lemma menuOk_textChangedDelayed: "menuOk d \<Longrightarrow> menuOk (textChangedDelayed env clip d)"
  by (simp add: textChangedDelayed_def Let_def menuOk_updateButtonState)

lemma menuOk_setPlainText: "menuOk d \<Longrightarrow> menuOk (setPlainText env clip t d)"
  by (simp add: setPlainText_def textChanged_def menuOk_updateButtonState)

lemma menuOk_toolButtonOptionTriggered:
  "menuOk d \<Longrightarrow> menuOk (toolButtonOptionTriggered env clip d)"
  by (simp add: toolButtonOptionTriggered_def menuOk_textChangedDelayed)

lemma menuOk_restoreState: "menuOk d \<Longrightarrow> menuOk (restoreState env clip st d)"
  by (simp add: restoreState_def Let_def menuOk_setPlainText menuOk_updateButtonState)

lemma menuOk_fromClipboardClicked: "menuOk d \<Longrightarrow> menuOk (fromClipboardClicked env clip d)"
  by (simp add: fromClipboardClicked_def menuOk_textChangedDelayed menuOk_setPlainText)

lemma menuOk_updateButtonClicked: "menuOk d \<Longrightarrow> menuOk (updateButtonClicked env clip d)"
  by (simp add: updateButtonClicked_def menuOk_textChangedDelayed menuOk_setPlainText)

lemma activate_static:
  "length (actions (activate i m)) = length (actions m)"
  "data (actions (activate i m) ! k) = data (actions m ! k)"
  "checkable (actions (activate i m) ! k) = checkable (actions m ! k)"
  by (simp_all add: activate_def Let_def setChecked_static)

lemma menuOk_menuTriggered: "menuOk d \<Longrightarrow> menuOk (menuTriggered env clip i d)"
proof -
  assume ok: "menuOk d"
  then have "groupCurrentOk (activate i (menu d))"
    by (simp add: menuOk_def activate_def Let_def setChecked_groupCurrentOk)
  moreover from ok have "menuFlagsOk (actions (activate i (menu d)))"
    by (simp add: menuOk_def menuFlagsOk_def list_all_length activate_static)
  ultimately have "menuOk (d\<lparr>menu := activate i (menu d)\<rparr>)"
    by (simp add: menuOk_def)
  then show ?thesis
    by (simp add: menuTriggered_def menuOk_toolButtonOptionTriggered)
qed

text \<open>The menu of the sample dialog, set from the options 1077, and then with the action for \<^verbatim>\<open>DCT\<close> clicked.\<close>

lemma sample_menu_synced: "menu (updateButtonState (sampleEnv True) [] (sampleDialog True 1077)) =
   \<lparr>actions = [(newAction ''actionDepartDest'' 1)\<lparr>checked := True\<rparr>,
     newAction ''actionDct'' 2,
     (newAction ''actionSpeedAlt'' 4)\<lparr>checked := True\<rparr>,
     newAction ''actionWaypoints'' 8,
     (newAction ''actionAlternates'' 16)\<lparr>checked := True\<rparr>,
     addSeparator,
     (addToProcActionGroup (newAction ''actionSidStar'' 32))\<lparr>checked := True\<rparr>,
     addToProcActionGroup (newAction ''actionGenericSidStar'' 64),
     addToProcActionGroup (newAction ''actionNoSidStar'' 128),
     addSeparator,
     newAction ''actionReversedStar'' 256,
     newAction ''actionSpaceSidStar'' 512,
     addSeparator,
     (newAction ''actionTrailingAlternates'' 1024)\<lparr>checked := True\<rparr>,
     newAction ''actionNavaid'' 2048,
     newAction ''actionMatchCoords'' 4096], procActionGroupCurrent = Some 6\<rparr>"
    by (simp add: copyOptionFlags_def menu_defs upt16 setChecked_def setCheckedTrue_def
        setUnchecked_def testFlags_def Let_def)

lemma sample_menu_clicked: "activate 1 (menu (updateButtonState (sampleEnv True) [] (sampleDialog True 1077))) =
   \<lparr>actions = [(newAction ''actionDepartDest'' 1)\<lparr>checked := True\<rparr>,
     (newAction ''actionDct'' 2)\<lparr>checked := True\<rparr>,
     (newAction ''actionSpeedAlt'' 4)\<lparr>checked := True\<rparr>,
     newAction ''actionWaypoints'' 8,
     (newAction ''actionAlternates'' 16)\<lparr>checked := True\<rparr>,
     addSeparator,
     (addToProcActionGroup (newAction ''actionSidStar'' 32))\<lparr>checked := True\<rparr>,
     addToProcActionGroup (newAction ''actionGenericSidStar'' 64),
     addToProcActionGroup (newAction ''actionNoSidStar'' 128),
     addSeparator,
     newAction ''actionReversedStar'' 256,
     newAction ''actionSpaceSidStar'' 512,
     addSeparator,
     (newAction ''actionTrailingAlternates'' 1024)\<lparr>checked := True\<rparr>,
     newAction ''actionNavaid'' 2048,
     newAction ''actionMatchCoords'' 4096], procActionGroupCurrent = Some 6\<rparr>"
  unfolding sample_menu_synced
  by (simp add: activate_def setChecked_def setCheckedTrue_def Let_def newAction_def)

subsection \<open>Cleaning a route string\<close>

lemma toUpper_lower:
  "97 \<le> (of_char c :: nat) \<Longrightarrow> (of_char c :: nat) \<le> 122 \<Longrightarrow>
   toUpper c = char_of ((of_char c :: nat) - 32)"
  by (simp add: toUpper_def Let_def)

lemma toUpper_other:
  "\<not> (97 \<le> (of_char c :: nat) \<and> (of_char c :: nat) \<le> 122) \<Longrightarrow> toUpper c = c"
  by (auto simp add: toUpper_def Let_def)

lemma toUpper_idem [simp]: "toUpper (toUpper c) = toUpper c"
proof (cases "97 \<le> (of_char c :: nat) \<and> (of_char c :: nat) \<le> 122")
  case True
  then have less: "(of_char c :: nat) - 32 < 256" by linarith
  have "(of_char (char_of ((of_char c :: nat) - 32)) :: nat) = (of_char c - 32) mod 256"
    by simp
  also from less have "\<dots> = of_char c - 32" by (rule mod_less)
  finally have "\<not> (97 \<le> (of_char (char_of ((of_char c :: nat) - 32)) :: nat)
      \<and> (of_char (char_of ((of_char c :: nat) - 32)) :: nat) \<le> 122)"
    using True by linarith
  then have "toUpper (char_of ((of_char c :: nat) - 32)) = char_of ((of_char c :: nat) - 32)"
    by (rule toUpper_other)
  with True show ?thesis by (simp add: toUpper_lower)
next
  case False
  then show ?thesis by (simp add: toUpper_other)
qed

lemma toUpper_space [simp]: "QChar_isSpace (toUpper c) = QChar_isSpace c"
  by (auto simp add: toUpper_def QChar_isSpace_def Let_def)

lemma toUpper_punct [simp]: "isPunct (toUpper c) = isPunct c"
  by (auto simp add: toUpper_def isPunct_def Let_def)

lemma toUpper_punct_id: "isPunct c \<Longrightarrow> toUpper c = c"
  by (auto simp add: toUpper_def isPunct_def Let_def)

lemma blank_not_punct [simp]: "\<not> isPunct CHR '' ''"
  by (simp add: isPunct_def)

lemma blank_space [simp]: "QChar_isSpace CHR '' ''"
  by (simp add: QChar_isSpace_def)

lemma splitTokens_append:
  "list_all (\<lambda>c. \<not> QChar_isSpace c) t \<Longrightarrow> splitTokens acc (t @ rest) = splitTokens (acc @ t) rest"
  by (induction t arbitrary: acc) simp_all

lemma splitTokens_join:
  "list_all (\<lambda>t. t \<noteq> [] \<and> list_all (\<lambda>c. \<not> QChar_isSpace c) t) toks \<Longrightarrow>
   splitTokens [] (join '' '' toks) = toks"
proof (induction "'' ''" toks rule: join.induct)
  case 1
  then show ?case by simp
next
  case (2 x)
  then show ?case using splitTokens_append [of x "[]" "[]"] by simp
next
  case (3 x y ys)
  then show ?case
    using splitTokens_append [of x "[]" "CHR '' '' # join '' '' (y # ys)"] by simp
qed

lemma splitTokens_tokens:
  "list_all (\<lambda>c. \<not> QChar_isSpace c \<and> P c) acc \<Longrightarrow> list_all (\<lambda>c. QChar_isSpace c \<or> P c) s \<Longrightarrow>
   list_all (\<lambda>t. t \<noteq> [] \<and> list_all (\<lambda>c. \<not> QChar_isSpace c \<and> P c) t) (splitTokens acc s)"
  by (induction s arbitrary: acc) auto

lemma stripNoise_chars:
  "list_all (\<lambda>c. QChar_isSpace c \<or> (isPunct c \<longrightarrow> c \<in> set keep)) (stripNoise keep t)"
  by (induction t) (simp_all add: stripNoise_def)

lemma stripNoise_id:
  "list_all (\<lambda>c. isPunct c \<longrightarrow> c \<in> set keep) t \<Longrightarrow> stripNoise keep t = t"
  by (induction t) (auto simp add: stripNoise_def)

lemma stripNoise_append [simp]: "stripNoise keep (a @ b) = stripNoise keep a @ stripNoise keep b"
  by (simp add: stripNoise_def)

lemma stripNoise_join:
  "list_all (\<lambda>t. list_all (\<lambda>c. isPunct c \<longrightarrow> c \<in> set keep) t) toks \<Longrightarrow>
   stripNoise keep (join '' '' toks) = join '' '' toks"
proof (induction "'' ''" toks rule: join.induct)
  case 1
  then show ?case by (simp add: stripNoise_def)
next
  case (2 x)
  then show ?case by (simp add: stripNoise_id)
next
  case (3 x y ys)
  then show ?case by (simp add: stripNoise_id) (simp add: stripNoise_def)
qed

lemma cleanRouteString_tokens:
  "list_all (\<lambda>t. t \<noteq> [] \<and> list_all (\<lambda>c. \<not> QChar_isSpace c \<and> (isPunct c \<longrightarrow> c \<in> set keep)
       \<and> toUpper c = c) t) (rs_cleanRouteString keep s)"
proof -
  have "list_all (\<lambda>t. t \<noteq> [] \<and> list_all (\<lambda>c. \<not> QChar_isSpace c \<and> (isPunct c \<longrightarrow> c \<in> set keep)) t)
          (splitTokens [] (stripNoise keep s))"
    using splitTokens_tokens [of "\<lambda>c. isPunct c \<longrightarrow> c \<in> set keep" "[]" "stripNoise keep s"]
      stripNoise_chars [of keep s] by simp
  then show ?thesis
    by (auto simp add: rs_cleanRouteString_def list_all_iff toUpper_punct_id)
qed

subsection \<open>The reader: the fields after each kind of token\<close>


lemma addMessage_simps [simp]:
  "plan (addMessage m st) = plan st"
  "pendingAirway (addMessage m st) = pendingAirway st"
  "messages (addMessage m st) = messages st @ [m]"
  "previous (addMessage m st) = previous st"
  "phase (addMessage m st) = phase st"
  "skipNext (addMessage m st) = skipNext st"
  "pendingDirect (addMessage m st) = pendingDirect st"
  by (simp_all add: addMessage_def)

lemma appendEntry_simps [simp]:
  "entries (plan (appendEntry p aw st)) = entries (plan st) @
     [\<lparr>navPoint = p, airway = aw, altitudeConstraint = None, direct = pendingDirect st\<rparr>]"
  "pendingAirway (appendEntry p aw st) = pendingAirway st"
  "messages (appendEntry p aw st) = messages st"
  "previous (appendEntry p aw st) = Some p"
  "phase (appendEntry p aw st) = phase st"
  "skipNext (appendEntry p aw st) = skipNext st"
  "pendingDirect (appendEntry p aw st) = False"
  by (simp_all add: appendEntry_def)

lemma appendEntries_simps [simp]:
  "entries (plan (appendEntries ps aw st)) = entries (plan st) @ legEntries ps aw (pendingDirect st)"
  "pendingAirway (appendEntries ps aw st) = pendingAirway st"
  "messages (appendEntries ps aw st) = messages st"
  "previous (appendEntries ps aw st) = (if ps = [] then previous st else Some (last ps))"
  "phase (appendEntries ps aw st) = phase st"
  "skipNext (appendEntries ps aw st) = skipNext st"
  by (induction ps arbitrary: st) simp_all

lemma legEntries_simps [simp]:
  "map navPoint (legEntries ps aw d) = ps"
  "(legEntries ps aw d = []) = (ps = [])"
  "length (legEntries ps aw d) = length ps"
  by (induction ps arbitrary: d) simp_all

lemma legEntries_last [simp]: "ps \<noteq> [] \<Longrightarrow> navPoint (last (legEntries ps aw d)) = last ps"
  by (induction ps arbitrary: d) simp_all

lemma validEntries_legEntries [simp]: "validEntries db (legEntries ps aw d) = validPoints db ps"
  by (induction ps arbitrary: d) (simp_all add: validEntries_def validPoints_def)

lemma airwayLeg_addMessage [simp]: "airwayLeg db (addMessage m st) t rest = airwayLeg db st t rest"
  by (simp add: airwayLeg_def)

lemma procedure_addMessage [simp]:
  "procedure db r opts (addMessage m st) t rest = procedure db r opts st t rest"
  by (simp add: procedure_def)

lemma plainIdentifier_simps [simp]:
  "entries (plan (plainIdentifier db r opts st t)) = entries (plan st) @
     (case navaidsByIdent db t of [] \<Rightarrow> []
      | c # cs \<Rightarrow> [\<lparr>navPoint = nearest db (previous st) c cs, airway = None,
                    altitudeConstraint = None, direct = pendingDirect st\<rparr>])"
  "messages (plainIdentifier db r opts st t) = messages st @
     (case navaidsByIdent db t of [] \<Rightarrow> [''Cannot find '' @ t]
      | c # cs \<Rightarrow> if cs \<noteq> [] \<and> hasOption opts (REPORT r) then [''Found several for '' @ t] else [])"
  "previous (plainIdentifier db r opts st t) =
     (case navaidsByIdent db t of [] \<Rightarrow> previous st | c # cs \<Rightarrow> Some (nearest db (previous st) c cs))"
  "pendingAirway (plainIdentifier db r opts st t) = pendingAirway st"
  "phase (plainIdentifier db r opts st t) = phase st"
  "skipNext (plainIdentifier db r opts st t) = skipNext st"
  by (simp_all add: plainIdentifier_def Let_def split: list.splits)

lemma parseSpeedAlt_looks: "parseSpeedAlt t = Some x \<Longrightarrow> looksLikeSpeedAlt t"
  by (cases t; cases "tl t")
    (auto simp add: parseSpeedAlt_def looksLikeSpeedAlt_def Let_def split: if_splits list.splits)

lemma bodyItem_cases [case_names pending dct speed airway procedure coordinate plain]:
  assumes "\<And>aw leg. pendingAirway st = Some (aw, leg) \<Longrightarrow>
             bodyItem db r opts st t rest = appendEntries leg (Some aw) (st\<lparr>pendingAirway := None\<rparr>) \<Longrightarrow> P"
    and "pendingAirway st = None \<Longrightarrow> t = ''DCT'' \<Longrightarrow>
           bodyItem db r opts st t rest = st\<lparr>pendingDirect := True\<rparr> \<Longrightarrow> P"
    and "\<And>sp alt. pendingAirway st = None \<Longrightarrow> t \<noteq> ''DCT'' \<Longrightarrow> parseSpeedAlt t = Some (sp, alt) \<Longrightarrow>
           bodyItem db r opts st t rest =
             st\<lparr>plan := (plan st)\<lparr>cruisingAlt := int alt, cruiseSpeed := real sp\<rparr>,
                parsedSpeedKts := Some (real sp), parsedAltitudeIncluded := True\<rparr> \<Longrightarrow> P"
    and "\<And>leg. pendingAirway st = None \<Longrightarrow> t \<noteq> ''DCT'' \<Longrightarrow> parseSpeedAlt t = None \<Longrightarrow>
           airwayLeg db st t rest = Some leg \<Longrightarrow>
           bodyItem db r opts st t rest = st\<lparr>pendingAirway := Some (t, leg)\<rparr> \<Longrightarrow> P"
    and "\<And>legs used. pendingAirway st = None \<Longrightarrow> t \<noteq> ''DCT'' \<Longrightarrow> parseSpeedAlt t = None \<Longrightarrow>
           airwayLeg db st t rest = None \<Longrightarrow> procedure db r opts st t rest = Some (legs, used) \<Longrightarrow>
           bodyItem db r opts st t rest = (appendEntries legs None st)\<lparr>skipNext := used\<rparr> \<Longrightarrow> P"
    and "\<And>p. pendingAirway st = None \<Longrightarrow> t \<noteq> ''DCT'' \<Longrightarrow> parseSpeedAlt t = None \<Longrightarrow>
           airwayLeg db st t rest = None \<Longrightarrow> procedure db r opts st t rest = None \<Longrightarrow>
           coordinate db r opts t = Some p \<Longrightarrow>
           bodyItem db r opts st t rest = appendEntry p None st \<Longrightarrow> P"
    and "pendingAirway st = None \<Longrightarrow> t \<noteq> ''DCT'' \<Longrightarrow> parseSpeedAlt t = None \<Longrightarrow>
           looksLikeSpeedAlt t \<or>
           (airwayLeg db st t rest = None \<and> procedure db r opts st t rest = None \<and>
            coordinate db r opts t = None) \<Longrightarrow>
           bodyItem db r opts st t rest = plainIdentifier db r opts st t \<Longrightarrow> P"
  shows P
proof (cases "pendingAirway st")
  case (Some a)
  then show ?thesis using assms(1) [of "fst a" "snd a"] by (simp add: bodyItem_def split: prod.splits)
next
  case pa: None
  show ?thesis
  proof (cases "t = ''DCT''")
    case True
    with pa assms(2) show ?thesis by (simp add: bodyItem_def)
  next
    case nd: False
    show ?thesis
    proof (cases "parseSpeedAlt t")
      case (Some a)
      with parseSpeedAlt_looks [OF Some] pa nd assms(3) [of "fst a" "snd a"] show ?thesis
        by (simp add: bodyItem_def split: prod.splits)
    next
      case ns: None
      show ?thesis
      proof (cases "looksLikeSpeedAlt t")
        case True
        with pa nd ns assms(7) show ?thesis by (simp add: bodyItem_def)
      next
        case nl: False
        show ?thesis
        proof (cases "airwayLeg db st t rest")
          case (Some leg)
          with pa nd ns nl assms(4) [of leg] show ?thesis by (simp add: bodyItem_def)
        next
          case na: None
          show ?thesis
          proof (cases "procedure db r opts st t rest")
            case (Some a)
            with pa nd ns nl na assms(5) [of "fst a" "snd a"] show ?thesis
              by (simp add: bodyItem_def split: prod.splits)
          next
            case np: None
            show ?thesis
            proof (cases "coordinate db r opts t")
              case (Some p)
              with pa nd ns nl na np assms(6) [of p] show ?thesis by (simp add: bodyItem_def)
            next
              case None
              with pa nd ns nl na np assms(7) show ?thesis by (simp add: bodyItem_def)
            qed
          qed
        qed
      qed
    qed
  qed
qed

subsection \<open>The reader: what the lookups give is valid\<close>


lemma validEntries_append [simp]:
  "validEntries db (xs @ ys) = (validEntries db xs \<and> validEntries db ys)"
  by (simp add: validEntries_def)

lemma validPoints_append [simp]:
  "validPoints db (xs @ ys) = (validPoints db xs \<and> validPoints db ys)"
  by (simp add: validPoints_def)












lemma stateOk_fields [simp]:
  "stateOk db (st\<lparr>pendingDirect := b\<rparr>) = stateOk db st"
  "stateOk db (st\<lparr>skipNext := b\<rparr>) = stateOk db st"
  "stateOk db (st\<lparr>phase := ph\<rparr>) = stateOk db st"
  "stateOk db (st\<lparr>parsedSpeedKts := s\<rparr>) = stateOk db st"
  "stateOk db (st\<lparr>parsedAltitudeIncluded := b\<rparr>) = stateOk db st"
  "stateOk db (addMessage m st) = stateOk db st"
  by (simp_all add: stateOk_def)


lemma bodyItem_entries:
  "entries (plan (bodyItem db r opts st t rest)) =
     entries (plan st) @ newEntries st (bodyItem db r opts st t rest)"
  by (cases rule: bodyItem_cases [of st db r opts t rest]) (simp_all add: newEntries_def)

lemma bodyItem_messages:
  "messages (bodyItem db r opts st t rest) =
     messages st @ newMessages st (bodyItem db r opts st t rest)"
  by (cases rule: bodyItem_cases [of st db r opts t rest]) (simp_all add: newMessages_def)

lemma bodyItem_named: "list_all (suffix t) (newMessages st (bodyItem db r opts st t rest))"
  by (cases rule: bodyItem_cases [of st db r opts t rest])
    (simp_all add: newMessages_def suffix_def split: list.splits)

lemma bodyItem_not_silent:
  assumes "\<And>aw leg. pendingAirway st = Some (aw, leg) \<Longrightarrow> leg \<noteq> []"
  shows "t = ''DCT'' \<or> parseSpeedAlt t \<noteq> None \<or> airwayLeg db st t rest \<noteq> None \<or>
         procedure db r opts st t rest \<noteq> None \<or>
         newEntries st (bodyItem db r opts st t rest) \<noteq> [] \<or>
         newMessages st (bodyItem db r opts st t rest) \<noteq> []"
  using assms
  by (cases rule: bodyItem_cases [of st db r opts t rest])
    (simp_all add: newEntries_def newMessages_def split: list.splits)

subsection \<open>The reader: one token of the body\<close>






lemma new_addMessage [simp]:
  "newEntries (addMessage m st) x = newEntries st x"
  "newEntries st (addMessage m x) = newEntries st x"
  by (simp_all add: newEntries_def)

lemma newEntries_fields [simp]:
  "newEntries st (x\<lparr>phase := ph\<rparr>) = newEntries st x"
  "newEntries st (x\<lparr>skipNext := b\<rparr>) = newEntries st x"
  "newMessages st (x\<lparr>phase := ph\<rparr>) = newMessages st x"
  "newMessages st (x\<lparr>skipNext := b\<rparr>) = newMessages st x"
  by (simp_all add: newEntries_def newMessages_def)

lemma tokenContract_phase [simp]:
  "tokenContract db r opts st t rest (x\<lparr>phase := ph\<rparr>) = tokenContract db r opts st t rest x"
  by (simp add: tokenContract_def split: list.splits)



subsection \<open>The reader: one step\<close>


lemma previousOk_fields [simp]:
  "previousOk fp (addMessage m st) = previousOk fp st"
  "previousOk fp (st\<lparr>phase := ph\<rparr>) = previousOk fp st"
  "previousOk fp (st\<lparr>skipNext := b\<rparr>) = previousOk fp st"
  "previousOk fp (st\<lparr>pendingDirect := b\<rparr>) = previousOk fp st"
  "previousOk fp (st\<lparr>pendingAirway := pa\<rparr>) = previousOk fp st"
  by (simp_all add: previousOk_def)












lemma stateOk_plan [simp]: "stateOk db (st\<lparr>plan := x\<rparr>) = stateOk db st"
  by (simp add: stateOk_def)

lemma stateOk_appendEntry [simp]: "stateOk db (appendEntry p aw st) = stateOk db st"
  by (simp add: stateOk_def)

lemma stateOk_clearAirway [simp]: "stateOk db (st\<lparr>pendingAirway := None\<rparr>)"
  by (simp add: stateOk_def)






lemma parseStates_length [simp]: "length (parseStates db r opts st toks) = Suc (length toks)"
  by (induction toks arbitrary: st) simp_all

lemma parseStates_last [simp]: "last (parseStates db r opts st toks) = parse db r opts st toks"
proof (induction toks arbitrary: st)
  case Nil
  show ?case by simp
next
  case (Cons t rest)
  have "parseStates db r opts (step db r opts st t rest) rest \<noteq> []"
    by (cases rest) simp_all
  with Cons show ?case by simp
qed

lemma parseStates_hd [simp]: "parseStates db r opts st toks ! 0 = st"
  by (cases toks) simp_all





subsection \<open>The reader: the whole run\<close>






section \<open>The claims\<close>

subsection \<open>C3: reading the empty text\<close>

text \<open>
  C3. For the empty input string and any options value, the read operation returns the
  flight plan it was given with nothing added, so an empty flight plan when it was given
  the cleared one as the dialog does, an empty list of diagnostics, no speed, and
  \<^verbatim>\<open>altitudeIncluded = false\<close>.
\<close>

theorem createRouteFromString_empty:
  "RouteStringReader_createRouteFromString db r [] opts fp =
     \<lparr>readFlightplan = fp, readMessages = [], readSpeedKts = None,
      readAltitudeIncluded = False\<rparr>
   \<and> readFlightplan (RouteStringReader_createRouteFromString db r [] opts (Flightplan_clear fp'))
       = Flightplan_new
   \<and> entries (readFlightplan
        (RouteStringReader_createRouteFromString db r [] opts (Flightplan_clear fp'))) = []"
  by (simp add: RouteStringReader_createRouteFromString_def rs_cleanRouteString_def
      stripNoise_def initialState_def Flightplan_clear_def Flightplan_new_def)

text \<open>
  C3, at the sample database with the default options of the sample, from a plan that
  still holds a point.
\<close>

theorem createRouteFromString_empty_witness:
  "readMessages (RouteStringReader_createRouteFromString sampleDb rsSample [] 1077 samplePlan) = []
   \<and> readAltitudeIncluded
        (RouteStringReader_createRouteFromString sampleDb rsSample [] 1077 samplePlan) = False
   \<and> entries (readFlightplan
        (RouteStringReader_createRouteFromString sampleDb rsSample [] 1077
           (Flightplan_clear samplePlan))) = []"
proof -
  note e = createRouteFromString_empty [of sampleDb rsSample 1077 samplePlan samplePlan]
  from e [THEN conjunct1]
  have "readMessages (RouteStringReader_createRouteFromString sampleDb rsSample [] 1077 samplePlan) = []"
    and "readAltitudeIncluded
        (RouteStringReader_createRouteFromString sampleDb rsSample [] 1077 samplePlan) = False"
    by simp_all
  with e [THEN conjunct2, THEN conjunct2] show ?thesis by simp
qed

subsection \<open>C4: only valid points enter the plan, and no token is lost silently\<close>



subsection \<open>C5: the loop that copies the menu into the options\<close>

text \<open>
  C5, as stated, fails: the loop starts from the options the dialog holds, and a bit that
  no action of the menu carries stays as it is. With a database without SID and STAR the
  menu has no action for \<^verbatim>\<open>rs::SID_STAR\<close>; when the options hold that flag (32 in the
  sample, as saved by a session that had the action) and no action is checked, the loop
  leaves it set, and the result is not the union of the flags of the checked actions.
\<close>

theorem toolButtonOptionTriggered_keeps_other_flags:
  "options (toolButtonOptionTriggered (sampleEnv False) [] (sampleDialog False 32))
     \<noteq> checkedFlags (actions (menu (sampleDialog False 32)))"
  by (simp add: options_after_toolButtonOptionTriggered menu_defs copyAction_def)

text \<open>
  C5, amended. For every options value the dialog holds and every set of checked actions
  of a menu whose actions carry pairwise disjoint flags, the option-copy loop yields the
  options without any flag of the menu, united with the flags of the checked actions: so
  exactly the union of the flags of the checked actions when the options held no bit
  outside the flags of the menu. Copying one action changes no bit outside the flag of
  that action.
\<close>

theorem toolButtonOptionTriggered_union:
  assumes "orthogonal (actions (menu d))" and "\<not> updatingActions d"
  shows "options (toolButtonOptionTriggered env clip d)
           = (options d AND NOT (allFlags (actions (menu d)))) OR checkedFlags (actions (menu d))
       \<and> (options d AND NOT (allFlags (actions (menu d))) = 0 \<longrightarrow>
            options (toolButtonOptionTriggered env clip d) = checkedFlags (actions (menu d)))
       \<and> (\<forall>opts a. copyAction opts a AND NOT (data a) = opts AND NOT (data a))"
  using assms
  by (simp add: options_after_toolButtonOptionTriggered copyMenuState_formula copyAction_frame)

text \<open>
  C5 amended, at the sample dialog after its menu was set from the options 1077 (five
  actions checked) and the action for \<^verbatim>\<open>DCT\<close> was clicked: the loop gives 1079, the union of
  the flags of the six checked actions.
\<close>

theorem toolButtonOptionTriggered_union_witness:
  "orthogonal (actions (activate 1
       (menu (updateButtonState (sampleEnv True) [] (sampleDialog True 1077)))))
   \<and> options (updateButtonState (sampleEnv True) [] (sampleDialog True 1077))
       AND NOT (allFlags (actions (activate 1
         (menu (updateButtonState (sampleEnv True) [] (sampleDialog True 1077)))))) = 0
   \<and> checkedFlags (actions (activate 1
       (menu (updateButtonState (sampleEnv True) [] (sampleDialog True 1077))))) = 1079
   \<and> options (menuTriggered (sampleEnv True) [] 1
        (updateButtonState (sampleEnv True) [] (sampleDialog True 1077))) = 1079"
proof -
  let ?synced = "updateButtonState (sampleEnv True) [] (sampleDialog True 1077)"
  let ?clicked = "?synced\<lparr>menu := activate 1 (menu ?synced)\<rparr>"
  have m: "menu ?clicked = activate 1 (menu ?synced)" by simp
  have 1: "orthogonal (actions (menu ?clicked))"
    unfolding m sample_menu_clicked
    by (simp add: newAction_def addSeparator_def addToProcActionGroup_def)
  have 2: "\<not> updatingActions ?clicked" by simp
  have 3: "options ?clicked AND NOT (allFlags (actions (menu ?clicked))) = 0"
    unfolding m sample_menu_clicked
    by (simp add: newAction_def addSeparator_def addToProcActionGroup_def)
  have 4: "checkedFlags (actions (menu ?clicked)) = 1079"
    unfolding m sample_menu_clicked
    by (simp add: newAction_def addSeparator_def addToProcActionGroup_def)
  from toolButtonOptionTriggered_union [OF 1 2, of "sampleEnv True" "[]"] 1 3 4
  show ?thesis unfolding m by (simp add: menuTriggered_def)
qed

subsection \<open>C6: the flight plan of a read\<close>

text \<open>
  C6. The read path of the dialog clears its flight plan before the reader fills it: for
  every reader and every two invocations with the same input text and the same options,
  the resulting flight plans are equal, whatever the flight plan of the dialog held
  before (and whatever the other members and the clipboard held).
\<close>

theorem textChangedDelayed_fresh_flightplan:
  assumes "plainTextEditRouteString d1 = plainTextEditRouteString d2"
    and "options d1 = options d2"
  shows "getFlightplan (textChangedDelayed env clip1 d1)
       = getFlightplan (textChangedDelayed env clip2 d2)"
  using assms by (simp add: getFlightplan_def)

text \<open>
  C6, at the sample dialog, once with the fresh plan and once with a plan left over from
  an earlier read; the sample reader adds to the plan it is given.
\<close>

theorem textChangedDelayed_fresh_flightplan_witness:
  "plainTextEditRouteString (sampleDialog True 1077)
     = plainTextEditRouteString ((sampleDialog True 1077)\<lparr>flightplan := samplePlan\<rparr>)
   \<and> options (sampleDialog True 1077)
     = options ((sampleDialog True 1077)\<lparr>flightplan := samplePlan\<rparr>)
   \<and> flightplan (sampleDialog True 1077) \<noteq> samplePlan
   \<and> getFlightplan (textChangedDelayed (sampleEnv True) [] (sampleDialog True 1077))
     = getFlightplan (textChangedDelayed (sampleEnv True) ''KJFK''
         ((sampleDialog True 1077)\<lparr>flightplan := samplePlan\<rparr>))
   \<and> length (entries (getFlightplan (textChangedDelayed (sampleEnv True) ''KJFK''
         ((sampleDialog True 1077)\<lparr>flightplan := samplePlan\<rparr>)))) = 1"
proof -
  have 1: "plainTextEditRouteString (sampleDialog True 1077)
     = plainTextEditRouteString ((sampleDialog True 1077)\<lparr>flightplan := samplePlan\<rparr>)"
    by simp
  have 2: "options (sampleDialog True 1077)
     = options ((sampleDialog True 1077)\<lparr>flightplan := samplePlan\<rparr>)"
    by simp
  have 3: "flightplan (sampleDialog True 1077) \<noteq> samplePlan"
    by (simp add: samplePlan_def Flightplan_new_def)
  have 4: "length (entries (getFlightplan (textChangedDelayed (sampleEnv True) ''KJFK''
         ((sampleDialog True 1077)\<lparr>flightplan := samplePlan\<rparr>)))) = 1"
    by (simp add: getFlightplan_def sampleEnv_def sampleReader_def Flightplan_new_def)
  from textChangedDelayed_fresh_flightplan [OF 1 2, of "sampleEnv True" "[]" "''KJFK''"] 1 2 3 4
  show ?thesis by simp
qed

subsection \<open>C7: cleaning twice\<close>

text \<open>
  C7. \<^verbatim>\<open>cleanRouteString\<close> is idempotent: cleaning the text made of the tokens of a cleaned
  text, joined by blanks as \<^verbatim>\<open>fromClipboardClicked\<close> joins them, gives the same tokens as
  cleaning once, for every input text and whatever punctuation is kept.
\<close>

theorem cleanRouteString_idempotent:
  "rs_cleanRouteString keep (join '' '' (rs_cleanRouteString keep t)) = rs_cleanRouteString keep t"
proof -
  let ?toks = "rs_cleanRouteString keep t"
  have ok: "list_all (\<lambda>t. t \<noteq> [] \<and> list_all (\<lambda>c. \<not> QChar_isSpace c \<and> (isPunct c \<longrightarrow> c \<in> set keep)
       \<and> toUpper c = c) t) ?toks"
    by (rule cleanRouteString_tokens)
  then have 1: "stripNoise keep (join '' '' ?toks) = join '' '' ?toks"
    by (intro stripNoise_join) (auto simp add: list_all_iff)
  from ok have 2: "splitTokens [] (join '' '' ?toks) = ?toks"
    by (intro splitTokens_join) (auto simp add: list_all_iff)
  from ok have 3: "map (map toUpper) ?toks = ?toks"
    by (auto simp add: list_all_iff intro!: map_idI)
  show ?thesis
    unfolding rs_cleanRouteString_def [of keep "join '' '' ?toks"] 1 2 3 ..
qed

text \<open>C7, at a pasted text with noise, keeping the dot and the slash.\<close>

theorem cleanRouteString_idempotent_witness:
  "rs_cleanRouteString ''./'' ''kjfk, dct  alb; (j121) Bos.x ''
     = [''KJFK'', ''DCT'', ''ALB'', ''J121'', ''BOS.X'']
   \<and> rs_cleanRouteString ''./''
       (join '' '' (rs_cleanRouteString ''./'' ''kjfk, dct  alb; (j121) Bos.x ''))
     = [''KJFK'', ''DCT'', ''ALB'', ''J121'', ''BOS.X'']"
proof -
  have v: "rs_cleanRouteString ''./'' ''kjfk, dct  alb; (j121) Bos.x ''
     = [''KJFK'', ''DCT'', ''ALB'', ''J121'', ''BOS.X'']"
    by code_simp
  from cleanRouteString_idempotent [of "''./''" "''kjfk, dct  alb; (j121) Bos.x ''"] v
  show ?thesis by simp
qed

subsection \<open>C8: the options in the settings\<close>

text \<open>
  C8. The options round-trip through the settings: what \<^verbatim>\<open>getOptionsFromSettings\<close> (and so
  \<^verbatim>\<open>restoreState\<close>, into any dialog) reads after \<^verbatim>\<open>saveState\<close> is the options value that was
  saved, for every options value. Apart from what \<^verbatim>\<open>WidgetState\<close> saves of the widgets,
  \<^verbatim>\<open>saveState\<close> writes one value, the options as an \<^verbatim>\<open>int\<close> under the key of the options.
\<close>

theorem options_settings_roundtrip:
  "getOptionsFromSettings env (saveState env d st) = options d
   \<and> options (restoreState env clip (saveState env d st) d') = options d
   \<and> saveState env d st =
       (widgetStateSave env (ROUTE_STRING_DIALOG_SPLITTER env) (widgets d) st)
         (ROUTE_STRING_DIALOG_OPTIONS env \<mapsto> QVariant_Int (sint (options d)))"
  by (simp add: getOptions_saveState)
    (simp add: saveState_def setValue_def RouteStringOptions_toInt_def)

text \<open>
  C8, at the sample dialog with all 32 bits of the options set, which is \<open>- 1\<close> as an
  \<^verbatim>\<open>int\<close>, saved to empty settings.
\<close>

theorem options_settings_roundtrip_witness:
  "getOptionsFromSettings (sampleEnv True)
     (saveState (sampleEnv True) (sampleDialog True (- 1)) Map.empty) = - 1
   \<and> saveState (sampleEnv True) (sampleDialog True (- 1)) Map.empty
       ''RouteStringDialog/Options'' = Some (QVariant_Int (- 1))"
proof -
  have o: "options (sampleDialog True (- 1)) = - 1" by simp
  have k: "ROUTE_STRING_DIALOG_OPTIONS (sampleEnv True) = ''RouteStringDialog/Options''"
    by (simp add: sampleEnv_def)
  note t = options_settings_roundtrip [of "sampleEnv True" "sampleDialog True (- 1)" Map.empty]
  from t [THEN conjunct1] o
  have a: "getOptionsFromSettings (sampleEnv True)
     (saveState (sampleEnv True) (sampleDialog True (- 1)) Map.empty) = - 1"
    by simp
  from t [THEN conjunct2, THEN conjunct2] o k
  have b: "saveState (sampleEnv True) (sampleDialog True (- 1)) Map.empty
       ''RouteStringDialog/Options'' = Some (QVariant_Int (- 1))"
    by simp
  from a b show ?thesis by simp
qed

subsection \<open>C9: from the options to the menu and back\<close>

text \<open>
  C9, as stated, fails: the three SID and STAR actions are in \<^verbatim>\<open>procActionGroup\<close>, which is
  exclusive. With the flags of two of them in the options (\<^verbatim>\<open>SID_STAR\<close> and
  \<^verbatim>\<open>SID_STAR_GENERIC\<close>, 32 + 64 in the sample), \<^verbatim>\<open>updateButtonState\<close> checks the first, and
  checking the second unchecks the first again; copying the menu back then clears
  \<^verbatim>\<open>SID_STAR\<close> in the options.
\<close>

theorem updateButtonState_toolButtonOptionTriggered_exclusive:
  "options (toolButtonOptionTriggered (sampleEnv True) []
      (updateButtonState (sampleEnv True) [] (sampleDialog True 96)))
     \<noteq> options (sampleDialog True 96)"
  by (simp add: options_after_toolButtonOptionTriggered copyOptionFlags_def menu_defs upt16
      setChecked_def setCheckedTrue_def setUnchecked_def testFlags_def Let_def copyAction_def)

text \<open>
  C9, amended. For a menu as the constructor builds it (an action with a flag is
  checkable and its flag is one bit, the action the group remembers is of the group) and
  for every options value with the flag of at most one action of the exclusive group set,
  setting the menu from the options and copying the menu back leaves the options
  unchanged. For every options value and every menu, the bits that no action of the menu
  carries are untouched by the copy-back loop.
\<close>

theorem updateButtonState_toolButtonOptionTriggered_options:
  assumes "menuFlagsOk (actions (menu d))" and "groupCurrentOk (menu d)"
    and "exclusiveFlags (options d) (actions (menu d))"
  shows "options (toolButtonOptionTriggered env clip (updateButtonState env clip' d)) = options d
       \<and> (\<forall>d'. options (toolButtonOptionTriggered env clip d') AND NOT (allFlags (actions (menu d')))
               = options d' AND NOT (allFlags (actions (menu d'))))"
  using assms
  by (simp add: options_after_toolButtonOptionTriggered sync_then_copy copyMenuState_frame)

text \<open>
  C9 amended, at the sample dialog with the default options of the sample (1077, with
  \<^verbatim>\<open>SID_STAR\<close> as the one flag of the group).
\<close>

theorem updateButtonState_toolButtonOptionTriggered_options_witness:
  "menuFlagsOk (actions (menu (sampleDialog True 1077)))
   \<and> groupCurrentOk (menu (sampleDialog True 1077))
   \<and> exclusiveFlags (options (sampleDialog True 1077)) (actions (menu (sampleDialog True 1077)))
   \<and> options (toolButtonOptionTriggered (sampleEnv True) []
        (updateButtonState (sampleEnv True) [] (sampleDialog True 1077))) = 1077"
proof -
  have 1: "menuFlagsOk (actions (menu (sampleDialog True 1077)))"
    by (simp add: menuFlagsOk_def menu_defs singleBit_sample)
  have 2: "groupCurrentOk (menu (sampleDialog True 1077))"
    by (simp add: groupCurrentOk_def menu_defs)
  have 3: "exclusiveFlags (options (sampleDialog True 1077)) (actions (menu (sampleDialog True 1077)))"
    by (simp add: exclusiveFlags_def menu_defs testFlags_def)
  have 4: "options (sampleDialog True 1077) = 1077"
    by simp
  from updateButtonState_toolButtonOptionTriggered_options
    [OF 1 2 3, of "sampleEnv True" "[]" "[]"] 1 2 3 4
  show ?thesis by simp
qed

subsection \<open>C10: the ids of the airport parts\<close>

text \<open>
  C10. For \<^verbatim>\<open>MapRunway\<close>, \<^verbatim>\<open>MapRunwayEnd\<close>, \<^verbatim>\<open>MapApron\<close>, \<^verbatim>\<open>MapTaxiPath\<close>, \<^verbatim>\<open>MapParking\<close> and
  \<^verbatim>\<open>MapHelipad\<close>, \<^verbatim>\<open>getId()\<close> returns -1 for every value of the struct, also for a
  \<^verbatim>\<open>MapParking\<close> whatever its field \<^verbatim>\<open>id\<close> holds.
\<close>

theorem getId_minus_one:
  "MapRunway_getId r = - 1 \<and> MapRunwayEnd_getId e = - 1 \<and> MapApron_getId a = - 1
   \<and> MapTaxiPath_getId t = - 1 \<and> MapParking_getId p = - 1 \<and> MapHelipad_getId h = - 1
   \<and> MapParking_getId (p\<lparr>MapParking.id' := i\<rparr>) = - 1"
  by (simp add: MapRunway_getId_def MapRunwayEnd_getId_def MapApron_getId_def
      MapTaxiPath_getId_def MapParking_getId_def MapHelipad_getId_def)

text \<open>C10, at a parking with the database id 4711.\<close>

theorem getId_minus_one_witness:
  "MapParking.id' sampleParking = 4711 \<and> MapParking_getId sampleParking = - 1"
proof -
  from getId_minus_one [THEN conjunct2, THEN conjunct2, THEN conjunct2, THEN conjunct2,
      THEN conjunct1, of sampleParking]
  have "MapParking_getId sampleParking = - 1" .
  then show ?thesis by (simp add: sampleParking_def)
qed

end
